theory Spec2Isabelle
  imports Complex_Main
begin

section \<open>Storefront cart and checkout: data model\<close>

text \<open>
  The rows follow the interfaces of \<^verbatim>\<open>src/lib/supabase.ts\<close> and the tables of the
  schema migration. Identifiers are the uuid strings of the schema. A JavaScript
  \<^verbatim>\<open>number\<close> holding a price or an amount is an exact rational here (the schema stores
  \<^verbatim>\<open>decimal(10,2)\<close>); a quantity is an integer. The presentational columns that no
  modelled function reads (image urls, rating, review count, timestamps, the joined
  category of a product) are left out.
\<close>

type_synonym uuid = string

record product =
  p_id :: uuid
  p_name :: string
  p_description :: "string option"
  p_price :: rat
  p_category_id :: "uuid option"
  p_stock_quantity :: int
  p_is_featured :: bool
  p_is_active :: bool

text \<open>A row of table \<^verbatim>\<open>cart_items\<close>, and the client's \<^verbatim>\<open>CartItem\<close>: the row joined with
  its product (\<^verbatim>\<open>product:products(*)\<close>).\<close>

record cart_row =
  c_id :: uuid
  c_user_id :: uuid
  c_product_id :: uuid
  c_quantity :: int

record CartItem =
  ci_id :: uuid
  ci_user_id :: uuid
  ci_product_id :: uuid
  ci_quantity :: int
  ci_product :: product

datatype order_status = Pending | Confirmed | Shipped | Delivered | Cancelled

datatype payment_status = PaymentPending | Paid | PaymentFailed | Refunded

record shipping_address =
  sa_fullName :: string
  sa_address :: string
  sa_city :: string
  sa_postalCode :: string
  sa_country :: string

record order_row =
  o_id :: uuid
  o_user_id :: uuid
  o_status :: order_status
  o_total_amount :: rat
  o_shipping_address :: shipping_address
  o_payment_status :: payment_status

record order_item_row =
  oi_id :: uuid
  oi_order_id :: uuid
  oi_product_id :: uuid
  oi_quantity :: int
  oi_price :: rat

text \<open>A row of table \<^verbatim>\<open>profiles\<close>; the row-level policy on the products reads its admin
  flag.\<close>

record profile =
  pr_id :: uuid
  pr_email :: string
  pr_full_name :: "string option"
  pr_is_admin :: bool

text \<open>What the client sends: an order and an order line without the generated id.\<close>

record order_input =
  oin_user_id :: uuid
  oin_total_amount :: rat
  oin_shipping_address :: shipping_address
  oin_status :: order_status
  oin_payment_status :: payment_status

record order_item_input =
  oii_order_id :: uuid
  oii_product_id :: uuid
  oii_quantity :: int
  oii_price :: rat

record checkout_form =
  f_fullName :: string
  f_email :: string
  f_address :: string
  f_city :: string
  f_postalCode :: string
  f_country :: string

section \<open>The Record Store\<close>

text \<open>
  The hosted store is not part of the repository: the client reaches it through
  \<^verbatim>\<open>supabase.from(table)\<close>, and the specification lists its calls (select, insert,
  update, upsert, delete) as an external interface. The store is the four tables the
  cart and the checkout touch, with the constraints the schema migration declares on
  them, and with what the environment decides for each call: \<open>faults\<close> is the schedule
  of the coming calls (\<open>Some e\<close>: the store rejects the call with \<open>e\<close> and changes
  nothing; \<open>None\<close>, or an exhausted schedule: the call goes through), and \<open>calls\<close> is the
  journal of the calls issued so far with their outcomes. Every call returns a result or
  an error and changes nothing when it returns an error.

  Of the row-level policies of the schema, the one that decides a call of the client is
  modelled: \<^verbatim>\<open>"Admins can manage products"\<close>, the only policy that allows an UPDATE of
  \<^verbatim>\<open>products\<close>. The policies on \<^verbatim>\<open>cart_items\<close>, \<^verbatim>\<open>orders\<close> and \<^verbatim>\<open>order_items\<close> compare
  the owner of the row with the signed-in user, whose id every call of the client sends.
  The read policy of \<^verbatim>\<open>products\<close> (active rows, and every row for an administrator) is
  not modelled: every product of the model can be read. Any other denial is one of the
  scheduled rejections.
\<close>

datatype store_error = NetworkError | AuthorizationDenied | ConstraintViolation | NotSingleRow

datatype table_name = Products | CartItems | Orders | OrderItems

datatype verb = Select | Insert | Update | Upsert | Delete

type_synonym call_entry = "table_name \<times> verb \<times> store_error option"

record store =
  profiles :: "profile list"
  products :: "product list"
  cart_items :: "cart_row list"
  orders :: "order_row list"
  order_items :: "order_item_row list"
  next_uuid :: nat
  faults :: "store_error option list"
  calls :: "call_entry list"

definition gen_random_uuid :: "nat \<Rightarrow> uuid" where
  "gen_random_uuid n = ''uuid-'' @ replicate n (CHR ''i'')"

definition scheduled_fault :: "store \<Rightarrow> store_error option" where
  "scheduled_fault s = (case faults s of [] \<Rightarrow> None | f # _ \<Rightarrow> f)"

definition journal :: "table_name \<Rightarrow> verb \<Rightarrow> store_error option \<Rightarrow> store \<Rightarrow> store" where
  "journal t v outcome s = s\<lparr>faults := tl (faults s), calls := calls s @ [(t, v, outcome)]\<rparr>"

definition reject :: "table_name \<Rightarrow> verb \<Rightarrow> store_error \<Rightarrow> store \<Rightarrow> (store_error + 'a) \<times> store" where
  "reject t v e s = (Inl e, journal t v (Some e) s)"

definition accept :: "table_name \<Rightarrow> verb \<Rightarrow> 'a \<Rightarrow> store \<Rightarrow> (store_error + 'a) \<times> store" where
  "accept t v x s = (Inr x, journal t v None s)"

text \<open>The condition of the policies for administrators:
  \<^verbatim>\<open>EXISTS (SELECT 1 FROM profiles WHERE id = auth.uid() AND is_admin = true)\<close>.\<close>

definition is_admin :: "store \<Rightarrow> uuid \<Rightarrow> bool" where
  "is_admin s uid = list_ex (\<lambda>pr. pr_id pr = uid \<and> pr_is_admin pr) (profiles s)"

definition find_product :: "product list \<Rightarrow> uuid \<Rightarrow> product option" where
  "find_product ps pid = find (\<lambda>p. p_id p = pid) ps"

text \<open>The join \<^verbatim>\<open>select('*, product:products(*)')\<close>. The foreign key of
  \<^verbatim>\<open>cart_items.product_id\<close> makes every row find its product; a row that finds none
  yields no item.\<close>

definition join_product :: "product list \<Rightarrow> cart_row \<Rightarrow> CartItem list" where
  "join_product ps c =
     (case find_product ps (c_product_id c) of
        None \<Rightarrow> []
      | Some p \<Rightarrow> [\<lparr>ci_id = c_id c, ci_user_id = c_user_id c, ci_product_id = c_product_id c,
                    ci_quantity = c_quantity c, ci_product = p\<rparr>])"

definition cart_of :: "store \<Rightarrow> uuid \<Rightarrow> CartItem list" where
  "cart_of s uid = concat (map (join_product (products s)) (filter (\<lambda>c. c_user_id c = uid) (cart_items s)))"

definition is_entry :: "uuid \<Rightarrow> uuid \<Rightarrow> cart_row \<Rightarrow> bool" where
  "is_entry uid pid c = (c_user_id c = uid \<and> c_product_id c = pid)"

text \<open>\<^verbatim>\<open>from('cart_items').select(...).eq('user_id', uid)\<close>\<close>

definition select_cart_items :: "uuid \<Rightarrow> store \<Rightarrow> (store_error + CartItem list) \<times> store" where
  "select_cart_items uid s =
     (case scheduled_fault s of
        Some e \<Rightarrow> reject CartItems Select e s
      | None \<Rightarrow> accept CartItems Select (cart_of s uid) s)"

text \<open>
  Modelled from the spec: the store's \<^verbatim>\<open>upsert(table, row, conflictKeys)\<close>, which is not in
  the repository. The conflict keys are an argument. When they are the unique pair
  \<^verbatim>\<open>user_id, product_id\<close> of the schema, a row of that pair keeps its id and place and
  its quantity is overwritten, and a row with a generated id is appended when there is
  none. When none are named, or the primary key \<^verbatim>\<open>id\<close> is, the conflict target is the
  primary key: the row the client sends has no id, the store generates a fresh one, no
  conflict arises on it, and the row is inserted; \<^verbatim>\<open>UNIQUE(user_id, product_id)\<close> then
  rejects it when the pair is in the table. Other keys name no unique constraint and are
  rejected. The schema's \<^verbatim>\<open>CHECK (quantity > 0)\<close> and the foreign key to \<^verbatim>\<open>products\<close>
  reject the call. \<^verbatim>\<open>.select(...).single()\<close> returns the joined row.
\<close>

definition upsert_cart_item ::
  "string list \<Rightarrow> uuid \<Rightarrow> uuid \<Rightarrow> int \<Rightarrow> store \<Rightarrow> (store_error + CartItem) \<times> store" where
  "upsert_cart_item conflictKeys uid pid q s =
     (case scheduled_fault s of
        Some e \<Rightarrow> reject CartItems Upsert e s
      | None \<Rightarrow>
          if q \<le> 0 then reject CartItems Upsert ConstraintViolation s
          else (case find_product (products s) pid of
                  None \<Rightarrow> reject CartItems Upsert ConstraintViolation s
                | Some p \<Rightarrow>
                    (case find (is_entry uid pid) (cart_items s) of
                       Some c \<Rightarrow>
                         if conflictKeys = [''user_id'', ''product_id'']
                         then accept CartItems Upsert
                                \<lparr>ci_id = c_id c, ci_user_id = uid, ci_product_id = pid,
                                  ci_quantity = q, ci_product = p\<rparr>
                                (s\<lparr>cart_items :=
                                     map (\<lambda>r. if is_entry uid pid r then r\<lparr>c_quantity := q\<rparr> else r)
                                       (cart_items s)\<rparr>)
                         else reject CartItems Upsert ConstraintViolation s
                     | None \<Rightarrow>
                         if conflictKeys = [''user_id'', ''product_id''] \<or> conflictKeys = []
                            \<or> conflictKeys = [''id'']
                         then accept CartItems Upsert
                                \<lparr>ci_id = gen_random_uuid (next_uuid s), ci_user_id = uid,
                                  ci_product_id = pid, ci_quantity = q, ci_product = p\<rparr>
                                (s\<lparr>cart_items := cart_items s @
                                       [\<lparr>c_id = gen_random_uuid (next_uuid s), c_user_id = uid,
                                         c_product_id = pid, c_quantity = q\<rparr>],
                                    next_uuid := Suc (next_uuid s)\<rparr>)
                         else reject CartItems Upsert ConstraintViolation s)))"

text \<open>\<^verbatim>\<open>from('cart_items').update({quantity}).eq('user_id', uid).eq('product_id', pid)
  .select(...).single()\<close>: \<^verbatim>\<open>single()\<close> is an error unless exactly one row comes back.\<close>

definition update_cart_item :: "uuid \<Rightarrow> uuid \<Rightarrow> int \<Rightarrow> store \<Rightarrow> (store_error + CartItem) \<times> store" where
  "update_cart_item uid pid q s =
     (case scheduled_fault s of
        Some e \<Rightarrow> reject CartItems Update e s
      | None \<Rightarrow>
          if q \<le> 0 then reject CartItems Update ConstraintViolation s
          else (case concat (map (join_product (products s)) (filter (is_entry uid pid) (cart_items s))) of
                  [item] \<Rightarrow>
                    accept CartItems Update (item\<lparr>ci_quantity := q\<rparr>)
                      (s\<lparr>cart_items := map (\<lambda>r. if is_entry uid pid r then r\<lparr>c_quantity := q\<rparr> else r)
                                           (cart_items s)\<rparr>)
                | _ \<Rightarrow> reject CartItems Update NotSingleRow s))"

text \<open>\<^verbatim>\<open>from('cart_items').delete().eq('user_id', uid).eq('product_id', pid)\<close> and
  \<^verbatim>\<open>from('cart_items').delete().eq('user_id', uid)\<close>\<close>

definition delete_cart_item :: "uuid \<Rightarrow> uuid \<Rightarrow> store \<Rightarrow> (store_error + unit) \<times> store" where
  "delete_cart_item uid pid s =
     (case scheduled_fault s of
        Some e \<Rightarrow> reject CartItems Delete e s
      | None \<Rightarrow> accept CartItems Delete ()
                  (s\<lparr>cart_items := filter (\<lambda>r. \<not> is_entry uid pid r) (cart_items s)\<rparr>))"

definition delete_cart :: "uuid \<Rightarrow> store \<Rightarrow> (store_error + unit) \<times> store" where
  "delete_cart uid s =
     (case scheduled_fault s of
        Some e \<Rightarrow> reject CartItems Delete e s
      | None \<Rightarrow> accept CartItems Delete ()
                  (s\<lparr>cart_items := filter (\<lambda>r. c_user_id r \<noteq> uid) (cart_items s)\<rparr>))"

text \<open>\<^verbatim>\<open>from('orders').insert(row).select().single()\<close>, under
  \<^verbatim>\<open>CHECK (total_amount >= 0)\<close>.\<close>

definition insert_order :: "order_input \<Rightarrow> store \<Rightarrow> (store_error + order_row) \<times> store" where
  "insert_order row s =
     (case scheduled_fault s of
        Some e \<Rightarrow> reject Orders Insert e s
      | None \<Rightarrow>
          if oin_total_amount row < 0 then reject Orders Insert ConstraintViolation s
          else (let order = \<lparr>o_id = gen_random_uuid (next_uuid s), o_user_id = oin_user_id row,
                              o_status = oin_status row, o_total_amount = oin_total_amount row,
                              o_shipping_address = oin_shipping_address row,
                              o_payment_status = oin_payment_status row\<rparr>
                in accept Orders Insert order
                     (s\<lparr>orders := orders s @ [order], next_uuid := Suc (next_uuid s)\<rparr>)))"

text \<open>\<^verbatim>\<open>from('order_items').insert(rows)\<close>: one statement, all rows or none, under
  \<^verbatim>\<open>CHECK (quantity > 0)\<close>, \<^verbatim>\<open>CHECK (price >= 0)\<close> and the two foreign keys.\<close>

definition order_item_ok :: "store \<Rightarrow> order_item_input \<Rightarrow> bool" where
  "order_item_ok s r =
     (0 < oii_quantity r \<and> 0 \<le> oii_price r
      \<and> find (\<lambda>ord. o_id ord = oii_order_id r) (orders s) \<noteq> None
      \<and> find_product (products s) (oii_product_id r) \<noteq> None)"

fun number_rows :: "nat \<Rightarrow> order_item_input list \<Rightarrow> order_item_row list" where
  "number_rows n [] = []"
| "number_rows n (r # rs) =
     \<lparr>oi_id = gen_random_uuid n, oi_order_id = oii_order_id r, oi_product_id = oii_product_id r,
      oi_quantity = oii_quantity r, oi_price = oii_price r\<rparr> # number_rows (Suc n) rs"

definition insert_order_items :: "order_item_input list \<Rightarrow> store \<Rightarrow> (store_error + unit) \<times> store" where
  "insert_order_items rows s =
     (case scheduled_fault s of
        Some e \<Rightarrow> reject OrderItems Insert e s
      | None \<Rightarrow>
          if list_all (order_item_ok s) rows
          then accept OrderItems Insert ()
                 (s\<lparr>order_items := order_items s @ number_rows (next_uuid s) rows,
                     next_uuid := next_uuid s + length rows\<rparr>)
          else reject OrderItems Insert ConstraintViolation s)"

text \<open>\<^verbatim>\<open>from('products').update(patch).eq('id', pid)\<close>, issued by the signed-in user
  \<open>actor\<close>. The policy \<^verbatim>\<open>"Admins can manage products"\<close> is the only one that allows an
  UPDATE: for an administrator the rows with this id are patched, under
  \<^verbatim>\<open>CHECK (stock_quantity >= 0)\<close> and \<^verbatim>\<open>CHECK (price >= 0)\<close>; for anyone else the rows are
  not visible to the UPDATE, which matches no row and is no error. Without \<^verbatim>\<open>single()\<close>
  a patch that matches no row is no error either.\<close>

definition product_ok :: "product \<Rightarrow> bool" where
  "product_ok p = (0 \<le> p_stock_quantity p \<and> 0 \<le> p_price p)"

definition update_products ::
  "uuid \<Rightarrow> (product \<Rightarrow> product) \<Rightarrow> uuid \<Rightarrow> store \<Rightarrow> (store_error + unit) \<times> store" where
  "update_products actor patch pid s =
     (case scheduled_fault s of
        Some e \<Rightarrow> reject Products Update e s
      | None \<Rightarrow>
          if is_admin s actor
          then (if list_all (\<lambda>p. product_ok (patch p)) (filter (\<lambda>p. p_id p = pid) (products s))
                then accept Products Update ()
                       (s\<lparr>products := map (\<lambda>p. if p_id p = pid then patch p else p) (products s)\<rparr>)
                else reject Products Update ConstraintViolation s)
          else accept Products Update () s)"

section \<open>The cart hook \<^verbatim>\<open>useCart\<close>\<close>

text \<open>
  \<^verbatim>\<open>useAuth().user\<close> and \<^verbatim>\<open>isSupabaseConfigured()\<close> are the session; every function of the
  hook starts with the guard \<^verbatim>\<open>!user || !isSupabaseConfigured()\<close>. The React state of the
  hook is passed in and returned; what a function shows, logs or throws to its caller is
  returned beside it.
\<close>

record session =
  session_user :: "uuid option"
  supabase_configured :: bool

definition guard_user :: "session \<Rightarrow> uuid option" where
  "guard_user ss = (if supabase_configured ss then session_user ss else None)"

record cart_state =
  cartItems :: "CartItem list"
  loading :: bool

datatype toast = ToastSuccess string | ToastError string

record cart_result =
  res_state :: cart_state
  res_store :: store
  res_toasts :: "toast list"
  res_console :: "(string \<times> store_error) list"
  res_thrown :: "store_error option"

record checkout_result = cart_result +
  res_closed :: bool

definition returned :: "cart_state \<Rightarrow> store \<Rightarrow> toast list \<Rightarrow> cart_result" where
  "returned h s ts = \<lparr>res_state = h, res_store = s, res_toasts = ts, res_console = [], res_thrown = None\<rparr>"

definition caught :: "string \<Rightarrow> store_error \<Rightarrow> cart_state \<Rightarrow> store \<Rightarrow> toast list \<Rightarrow> cart_result" where
  "caught msg e h s ts =
     \<lparr>res_state = h, res_store = s, res_toasts = ts, res_console = [(msg, e)], res_thrown = None\<rparr>"

definition fetchCartItems :: "session \<Rightarrow> cart_state \<Rightarrow> store \<Rightarrow> cart_result" where
  "fetchCartItems ss h s =
     (case guard_user ss of
        None \<Rightarrow> returned h s []
      | Some uid \<Rightarrow>
          (case select_cart_items uid s of
             (Inl e, s') \<Rightarrow> caught ''Error fetching cart items:'' e (h\<lparr>loading := False\<rparr>) s' []
           | (Inr data, s') \<Rightarrow> returned (h\<lparr>cartItems := data, loading := False\<rparr>) s' []))"

text \<open>\<^verbatim>\<open>Array.prototype.findIndex\<close>: the first index whose element passes, or \<open>-1\<close>.\<close>

fun findIndex :: "('a \<Rightarrow> bool) \<Rightarrow> 'a list \<Rightarrow> int" where
  "findIndex P [] = - 1"
| "findIndex P (x # xs) =
     (if P x then 0 else (let i = findIndex P xs in if i < 0 then - 1 else i + 1))"

text \<open>\<^verbatim>\<open>addToCart\<close> calls \<^verbatim>\<open>upsert({user_id, product_id, quantity})\<close> and names no conflict
  keys.\<close>

definition addToCart :: "session \<Rightarrow> uuid \<Rightarrow> int \<Rightarrow> cart_state \<Rightarrow> store \<Rightarrow> cart_result" where
  "addToCart ss productId quantity h s =
     (case guard_user ss of
        None \<Rightarrow> returned h s [ToastError ''Please sign in to add items to cart'']
      | Some uid \<Rightarrow>
          (case upsert_cart_item [] uid productId quantity s of
             (Inl e, s') \<Rightarrow> caught ''Error adding to cart:'' e h s' [ToastError ''Failed to add to cart'']
           | (Inr data, s') \<Rightarrow>
               (let existingIndex = findIndex (\<lambda>item. ci_product_id item = productId) (cartItems h)
                in if 0 \<le> existingIndex
                   then returned (h\<lparr>cartItems := (cartItems h)[nat existingIndex := data]\<rparr>) s'
                          [ToastSuccess ''Added to cart'']
                   else returned (h\<lparr>cartItems := cartItems h @ [data]\<rparr>) s'
                          [ToastSuccess ''Added to cart''])))"

definition removeFromCart :: "session \<Rightarrow> uuid \<Rightarrow> cart_state \<Rightarrow> store \<Rightarrow> cart_result" where
  "removeFromCart ss productId h s =
     (case guard_user ss of
        None \<Rightarrow> returned h s []
      | Some uid \<Rightarrow>
          (case delete_cart_item uid productId s of
             (Inl e, s') \<Rightarrow>
               caught ''Error removing from cart:'' e h s' [ToastError ''Failed to remove from cart'']
           | (Inr _, s') \<Rightarrow>
               returned (h\<lparr>cartItems := filter (\<lambda>item. ci_product_id item \<noteq> productId) (cartItems h)\<rparr>) s'
                 [ToastSuccess ''Removed from cart'']))"

definition updateQuantity :: "session \<Rightarrow> uuid \<Rightarrow> int \<Rightarrow> cart_state \<Rightarrow> store \<Rightarrow> cart_result" where
  "updateQuantity ss productId quantity h s =
     (case guard_user ss of
        None \<Rightarrow> returned h s []
      | Some uid \<Rightarrow>
          if quantity \<le> 0 then removeFromCart ss productId h s
          else (case update_cart_item uid productId quantity s of
                  (Inl e, s') \<Rightarrow>
                    caught ''Error updating quantity:'' e h s' [ToastError ''Failed to update quantity'']
                | (Inr data, s') \<Rightarrow>
                    returned (h\<lparr>cartItems := map (\<lambda>item. if ci_product_id item = productId then data else item)
                                                (cartItems h)\<rparr>) s' []))"

definition clearCart :: "session \<Rightarrow> cart_state \<Rightarrow> store \<Rightarrow> cart_result" where
  "clearCart ss h s =
     (case guard_user ss of
        None \<Rightarrow> returned h s []
      | Some uid \<Rightarrow>
          (case delete_cart uid s of
             (Inl e, s') \<Rightarrow> caught ''Error clearing cart:'' e h s' [ToastError ''Failed to clear cart'']
           | (Inr _, s') \<Rightarrow> returned (h\<lparr>cartItems := []\<rparr>) s' []))"

definition cartTotal :: "cart_state \<Rightarrow> rat" where
  "cartTotal h = foldl (\<lambda>total item. total + p_price (ci_product item) * of_int (ci_quantity item)) 0 (cartItems h)"

definition cartCount :: "cart_state \<Rightarrow> int" where
  "cartCount h = foldl (\<lambda>total item. total + ci_quantity item) 0 (cartItems h)"

section \<open>The checkout \<^verbatim>\<open>handleCheckout\<close>\<close>

definition order_of_cart :: "uuid \<Rightarrow> checkout_form \<Rightarrow> cart_state \<Rightarrow> order_input" where
  "order_of_cart uid d h =
     \<lparr>oin_user_id = uid, oin_total_amount = cartTotal h,
      oin_shipping_address =
        \<lparr>sa_fullName = f_fullName d, sa_address = f_address d, sa_city = f_city d,
         sa_postalCode = f_postalCode d, sa_country = f_country d\<rparr>,
      oin_status = Confirmed, oin_payment_status = Paid\<rparr>"

definition orderItems :: "order_row \<Rightarrow> CartItem list \<Rightarrow> order_item_input list" where
  "orderItems order items =
     map (\<lambda>item. \<lparr>oii_order_id = o_id order, oii_product_id = ci_product_id item,
                   oii_quantity = ci_quantity item, oii_price = p_price (ci_product item)\<rparr>) items"

text \<open>The loop \<^verbatim>\<open>for (const item of cartItems)\<close>: one update per item, stopped by the first
  \<^verbatim>\<open>stockError\<close>.\<close>

fun update_stock :: "uuid \<Rightarrow> CartItem list \<Rightarrow> store \<Rightarrow> (store_error + unit) \<times> store" where
  "update_stock uid [] s = (Inr (), s)"
| "update_stock uid (item # items) s =
     (case update_products uid
             (\<lambda>p. p\<lparr>p_stock_quantity := p_stock_quantity (ci_product item) - ci_quantity item\<rparr>)
             (ci_product_id item) s of
        (Inl e, s') \<Rightarrow> (Inl e, s')
      | (Inr _, s') \<Rightarrow> update_stock uid items s')"

definition checkout_failed :: "store_error \<Rightarrow> cart_state \<Rightarrow> store \<Rightarrow> checkout_result" where
  "checkout_failed e h s =
     \<lparr>res_state = h, res_store = s, res_toasts = [ToastError ''Failed to place order''],
      res_console = [(''Checkout error:'', e)], res_thrown = None, res_closed = False\<rparr>"

definition handleCheckout :: "session \<Rightarrow> checkout_form \<Rightarrow> cart_state \<Rightarrow> store \<Rightarrow> checkout_result" where
  "handleCheckout ss d h s =
     (case guard_user ss of
        None \<Rightarrow>
          \<lparr>res_state = h, res_store = s, res_toasts = [ToastError ''Please connect to Supabase first''],
           res_console = [], res_thrown = None, res_closed = False\<rparr>
      | Some uid \<Rightarrow>
          (case insert_order (order_of_cart uid d h) s of
             (Inl e, s1) \<Rightarrow> checkout_failed e h s1
           | (Inr order, s1) \<Rightarrow>
               (case insert_order_items (orderItems order (cartItems h)) s1 of
                  (Inl e, s2) \<Rightarrow> checkout_failed e h s2
                | (Inr _, s2) \<Rightarrow>
                    (case update_stock uid (cartItems h) s2 of
                       (Inl e, s3) \<Rightarrow> checkout_failed e h s3
                     | (Inr _, s3) \<Rightarrow>
                         (let r = clearCart ss h s3
                          in case res_thrown r of
                               Some e \<Rightarrow> checkout_failed e (res_state r) (res_store r)
                             | None \<Rightarrow>
                                 \<lparr>res_state = res_state r, res_store = res_store r,
                                  res_toasts = res_toasts r @ [ToastSuccess ''Order placed successfully!''],
                                  res_console = res_console r, res_thrown = None,
                                  res_closed = True\<rparr>)))))"

section \<open>The catalog filter \<^verbatim>\<open>filterProducts\<close>\<close>

text \<open>
  Strings are byte lists. \<^verbatim>\<open>toLowerCase\<close> is modelled on the ASCII letters and \<^verbatim>\<open>trim\<close> on
  the ASCII white space (space, tab, line feed, vertical tab, form feed, carriage
  return).
\<close>

definition lower_char :: "char \<Rightarrow> char" where
  "lower_char c =
     (case map_of (zip ''ABCDEFGHIJKLMNOPQRSTUVWXYZ'' ''abcdefghijklmnopqrstuvwxyz'') c of
        None \<Rightarrow> c | Some l \<Rightarrow> l)"

definition toLowerCase :: "string \<Rightarrow> string" where
  "toLowerCase str = map lower_char str"

definition is_space :: "char \<Rightarrow> bool" where
  "is_space c = (c \<in> set [CHR '' '', CHR 0x09, CHR 0x0A, CHR 0x0B, CHR 0x0C, CHR 0x0D])"

definition trim :: "string \<Rightarrow> string" where
  "trim str = rev (dropWhile is_space (rev (dropWhile is_space str)))"

fun starts_with :: "string \<Rightarrow> string \<Rightarrow> bool" where
  "starts_with str [] = True"
| "starts_with [] (c # cs) = False"
| "starts_with (x # xs) (c # cs) = (x = c \<and> starts_with xs cs)"

text \<open>\<^verbatim>\<open>String.prototype.includes\<close>\<close>

fun str_includes :: "string \<Rightarrow> string \<Rightarrow> bool" where
  "str_includes [] sub = (sub = [])"
| "str_includes (x # xs) sub = (starts_with (x # xs) sub \<or> str_includes xs sub)"

text \<open>The optional chain \<^verbatim>\<open>product.description?.toLowerCase().includes(q)\<close> is
  \<^verbatim>\<open>undefined\<close>, hence false, when the description is absent.\<close>

definition matches_query :: "string \<Rightarrow> product \<Rightarrow> bool" where
  "matches_query searchQuery p =
     (str_includes (toLowerCase (p_name p)) (toLowerCase searchQuery)
      \<or> (case p_description p of
            None \<Rightarrow> False
          | Some d \<Rightarrow> str_includes (toLowerCase d) (toLowerCase searchQuery)))"

text \<open>\<^verbatim>\<open>selectedCategory\<close> is \<^verbatim>\<open>string | null\<close>; the empty string is falsy as \<^verbatim>\<open>null\<close> is.\<close>

definition truthy :: "string option \<Rightarrow> bool" where
  "truthy v = (case v of None \<Rightarrow> False | Some str \<Rightarrow> str \<noteq> [])"

definition filterProducts :: "product list \<Rightarrow> string \<Rightarrow> string option \<Rightarrow> product list" where
  "filterProducts prods searchQuery selectedCategory =
     (let filtered = prods;
          filtered = (if trim searchQuery \<noteq> [] then filter (matches_query searchQuery) filtered
                      else filtered);
          filtered = (if truthy selectedCategory
                      then filter (\<lambda>p. p_category_id p = selectedCategory) filtered
                      else filtered)
      in filtered)"

section \<open>Vocabulary of the properties\<close>

text \<open>The calls a run has added to the journal, and whether one of them was rejected.\<close>

definition new_calls :: "store \<Rightarrow> store \<Rightarrow> call_entry list" where
  "new_calls s s' = drop (length (calls s)) (calls s')"

definition rejected :: "call_entry \<Rightarrow> bool" where
  "rejected c = (snd (snd c) \<noteq> None)"

definition store_reported_error :: "store \<Rightarrow> store \<Rightarrow> bool" where
  "store_reported_error s s' = list_ex rejected (new_calls s s')"

definition every_call_succeeded :: "store \<Rightarrow> store \<Rightarrow> bool" where
  "every_call_succeeded s s' = list_all (\<lambda>c. snd (snd c) = None) (new_calls s s')"

definition same_tables :: "store \<Rightarrow> store \<Rightarrow> bool" where
  "same_tables s s' =
     (products s' = products s \<and> cart_items s' = cart_items s
      \<and> orders s' = orders s \<and> order_items s' = order_items s)"

text \<open>The primary key of \<^verbatim>\<open>products\<close>, as a condition on a store.\<close>

definition products_unique :: "store \<Rightarrow> bool" where
  "products_unique s = distinct (map p_id (products s))"

definition line_amount :: "order_item_row \<Rightarrow> rat" where
  "line_amount l = oi_price l * of_int (oi_quantity l)"

text \<open>The five operations of the Cart Ledger, as the hook exports them.\<close>

datatype cart_op = Load | Add uuid int | SetQuantity uuid int | Remove uuid | Clear

fun run_cart_op :: "session \<Rightarrow> cart_op \<Rightarrow> cart_state \<Rightarrow> store \<Rightarrow> cart_result" where
  "run_cart_op ss Load h s = fetchCartItems ss h s"
| "run_cart_op ss (Add productId quantity) h s = addToCart ss productId quantity h s"
| "run_cart_op ss (SetQuantity productId quantity) h s = updateQuantity ss productId quantity h s"
| "run_cart_op ss (Remove productId) h s = removeFromCart ss productId h s"
| "run_cart_op ss Clear h s = clearCart ss h s"

text \<open>
  The filter as the specification words it: a product is kept when its name or its
  description contains the query without regard to case, an absent description not
  matching, and when its category is the selected one if one is selected.
\<close>

definition contains_ci :: "string \<Rightarrow> string \<Rightarrow> bool" where
  "contains_ci txt query = str_includes (toLowerCase txt) (toLowerCase query)"

definition specified_match :: "string \<Rightarrow> string option \<Rightarrow> product \<Rightarrow> bool" where
  "specified_match query categoryId p =
     ((contains_ci (p_name p) query
       \<or> (case p_description p of None \<Rightarrow> False | Some d \<Rightarrow> contains_ci d query))
      \<and> (if truthy categoryId then p_category_id p = categoryId else True))"

definition specified_filter :: "product list \<Rightarrow> string \<Rightarrow> string option \<Rightarrow> product list" where
  "specified_filter prods query categoryId = filter (specified_match query categoryId) prods"

subsection \<open>A small shop for the concrete runs\<close>

definition shoes :: product where
  "shoes = \<lparr>p_id = ''p1'', p_name = ''Running Shoes'',
            p_description = Some ''Comfortable running shoes for daily exercise'',
            p_price = 8999 / 100, p_category_id = Some ''clothing'', p_stock_quantity = 75,
            p_is_featured = True, p_is_active = True\<rparr>"

definition tshirt :: product where
  "tshirt = \<lparr>p_id = ''p2'', p_name = ''Designer T-Shirt'',
             p_description = Some ''Premium cotton t-shirt with modern design'',
             p_price = 2999 / 100, p_category_id = Some ''clothing'', p_stock_quantity = 100,
             p_is_featured = False, p_is_active = True\<rparr>"

definition mug :: product where
  "mug = \<lparr>p_id = ''p3'', p_name = ''Mug'', p_description = None,
          p_price = 5, p_category_id = None, p_stock_quantity = 1,
          p_is_featured = False, p_is_active = True\<rparr>"

definition alice :: session where
  "alice = \<lparr>session_user = Some ''u1'', supabase_configured = True\<rparr>"

text \<open>Two users: \<open>u1\<close> is an administrator, \<open>u2\<close> an ordinary buyer.\<close>

definition bob :: session where
  "bob = \<lparr>session_user = Some ''u2'', supabase_configured = True\<rparr>"

definition shop :: "cart_row list \<Rightarrow> store_error option list \<Rightarrow> store" where
  "shop rows schedule =
     \<lparr>profiles = [\<lparr>pr_id = ''u1'', pr_email = ''alice@example.org'', pr_full_name = Some ''Alice'',
                    pr_is_admin = True\<rparr>,
                  \<lparr>pr_id = ''u2'', pr_email = ''bob@example.org'', pr_full_name = Some ''Bob'',
                    pr_is_admin = False\<rparr>],
      products = [shoes, tshirt, mug], cart_items = rows, orders = [], order_items = [],
      next_uuid = 0, faults = schedule, calls = []\<rparr>"

definition entry :: "uuid \<Rightarrow> product \<Rightarrow> int \<Rightarrow> CartItem" where
  "entry i p q = \<lparr>ci_id = i, ci_user_id = ''u1'', ci_product_id = p_id p, ci_quantity = q, ci_product = p\<rparr>"

definition row :: "uuid \<Rightarrow> product \<Rightarrow> int \<Rightarrow> cart_row" where
  "row i p q = \<lparr>c_id = i, c_user_id = ''u1'', c_product_id = p_id p, c_quantity = q\<rparr>"

definition bob_entry :: "uuid \<Rightarrow> product \<Rightarrow> int \<Rightarrow> CartItem" where
  "bob_entry i p q = \<lparr>ci_id = i, ci_user_id = ''u2'', ci_product_id = p_id p, ci_quantity = q, ci_product = p\<rparr>"

definition bob_row :: "uuid \<Rightarrow> product \<Rightarrow> int \<Rightarrow> cart_row" where
  "bob_row i p q = \<lparr>c_id = i, c_user_id = ''u2'', c_product_id = p_id p, c_quantity = q\<rparr>"

definition cart :: "CartItem list \<Rightarrow> cart_state" where
  "cart items = \<lparr>cartItems = items, loading = False\<rparr>"

definition form :: checkout_form where
  "form = \<lparr>f_fullName = ''Alice'', f_email = ''alice@example.org'', f_address = ''1 Main St'',
           f_city = ''Springfield'', f_postalCode = ''12345'', f_country = ''US''\<rparr>"

subsection \<open>Auxiliary notions of the proofs\<close>

text \<open>The order lines a run has added; the catalog price of a product; the stock update
  of the checkout loop on one product row.\<close>

definition new_lines :: "store \<Rightarrow> store \<Rightarrow> order_item_row list" where
  "new_lines s s' = drop (length (order_items s)) (order_items s')"

definition catalog_price :: "store \<Rightarrow> uuid \<Rightarrow> rat option" where
  "catalog_price s pid = map_option p_price (find_product (products s) pid)"

definition decrement :: "CartItem \<Rightarrow> product \<Rightarrow> product" where
  "decrement item p =
     (if p_id p = ci_product_id item
      then p\<lparr>p_stock_quantity := p_stock_quantity (ci_product item) - ci_quantity item\<rparr>
      else p)"

section \<open>Auxiliary facts\<close>

lemmas store_defs =
  scheduled_fault_def journal_def reject_def accept_def find_product_def join_product_def
  cart_of_def is_entry_def select_cart_items_def upsert_cart_item_def update_cart_item_def
  delete_cart_item_def delete_cart_def insert_order_def order_item_ok_def
  insert_order_items_def product_ok_def update_products_def gen_random_uuid_def is_admin_def

lemmas hook_defs =
  guard_user_def returned_def caught_def fetchCartItems_def addToCart_def removeFromCart_def
  updateQuantity_def clearCart_def cartTotal_def cartCount_def order_of_cart_def orderItems_def
  checkout_failed_def handleCheckout_def

lemmas journal_defs =
  new_calls_def rejected_def store_reported_error_def every_call_succeeded_def same_tables_def

lemmas shop_defs =
  shoes_def tshirt_def mug_def alice_def bob_def shop_def entry_def row_def bob_entry_def
  bob_row_def cart_def form_def

lemma findIndex_none: "list_all (\<lambda>x. \<not> P x) xs \<Longrightarrow> findIndex P xs = - 1"
  by (induction xs) simp_all

lemma findIndex_first:
  "list_all (\<lambda>x. \<not> P x) xs \<Longrightarrow> P e \<Longrightarrow> findIndex P (xs @ e # ys) = int (length xs)"
  by (induction xs) (simp_all add: Let_def)

lemma fetchCartItems_error:
  "store_reported_error s (res_store (fetchCartItems ss h s)) \<Longrightarrow>
   cartItems (res_state (fetchCartItems ss h s)) = cartItems h
   \<and> res_thrown (fetchCartItems ss h s) = None \<and> res_console (fetchCartItems ss h s) \<noteq> []"
  by (auto simp: fetchCartItems_def select_cart_items_def store_reported_error_def rejected_def
      returned_def caught_def reject_def accept_def journal_def new_calls_def
      split: option.splits)

lemma clearCart_error:
  "store_reported_error s (res_store (clearCart ss h s)) \<Longrightarrow>
   cartItems (res_state (clearCart ss h s)) = cartItems h
   \<and> res_thrown (clearCart ss h s) = None \<and> res_console (clearCart ss h s) \<noteq> []"
  by (auto simp: clearCart_def delete_cart_def store_reported_error_def rejected_def
      returned_def caught_def reject_def accept_def journal_def new_calls_def
      split: option.splits)

lemma removeFromCart_error:
  "store_reported_error s (res_store (removeFromCart ss p h s)) \<Longrightarrow>
   cartItems (res_state (removeFromCart ss p h s)) = cartItems h
   \<and> res_thrown (removeFromCart ss p h s) = None \<and> res_console (removeFromCart ss p h s) \<noteq> []"
  by (auto simp: removeFromCart_def delete_cart_item_def store_reported_error_def rejected_def
      returned_def caught_def reject_def accept_def journal_def new_calls_def
      split: option.splits)

lemma addToCart_error:
  "store_reported_error s (res_store (addToCart ss p q h s)) \<Longrightarrow>
   cartItems (res_state (addToCart ss p q h s)) = cartItems h
   \<and> res_thrown (addToCart ss p q h s) = None \<and> res_console (addToCart ss p q h s) \<noteq> []"
  by (auto simp: addToCart_def upsert_cart_item_def store_reported_error_def rejected_def
      returned_def caught_def reject_def accept_def journal_def new_calls_def Let_def
      split: option.splits if_splits)

lemma updateQuantity_error:
  "store_reported_error s (res_store (updateQuantity ss p q h s)) \<Longrightarrow>
   cartItems (res_state (updateQuantity ss p q h s)) = cartItems h
   \<and> res_thrown (updateQuantity ss p q h s) = None \<and> res_console (updateQuantity ss p q h s) \<noteq> []"
  by (auto simp: updateQuantity_def update_cart_item_def store_reported_error_def rejected_def
      returned_def caught_def reject_def accept_def journal_def new_calls_def Let_def
      removeFromCart_error split: option.splits list.splits)

lemma list_all_not_filter: "list_all (\<lambda>x. \<not> P x) xs \<Longrightarrow> filter P xs = []"
  by (induction xs) simp_all

lemma find_None_all: "find P xs = None \<Longrightarrow> list_all (\<lambda>x. \<not> P x) xs"
  by (induction xs) (simp_all split: if_splits)

lemma find_append_last: "P x \<Longrightarrow> find P (xs @ [x]) \<noteq> None"
  by (induction xs) simp_all

lemma append_single:
  assumes "find (is_entry uid pid) rows = None" "is_entry uid pid new"
  shows "filter (is_entry uid pid) (rows @ [new]) = [new]"
  using assms find_None_all [of "is_entry uid pid" rows] by (simp add: list_all_not_filter)

lemma findIndex_in_range: "0 \<le> findIndex P xs \<Longrightarrow> nat (findIndex P xs) < length xs"
  by (induction xs) (auto simp: Let_def split: if_splits)

lemma upsert_default_accepted:
  assumes "upsert_cart_item [] uid pid q s = (Inr data, s')"
  shows "find (is_entry uid pid) (cart_items s) = None
         \<and> (\<exists>new. is_entry uid pid new \<and> c_quantity new = q \<and> cart_items s' = cart_items s @ [new])
         \<and> ci_product_id data = pid \<and> ci_quantity data = q"
  using assms
  by (auto simp: upsert_cart_item_def reject_def accept_def journal_def is_entry_def
      split: option.splits if_splits)

lemma upsert_default_existing:
  assumes "find (is_entry uid pid) (cart_items s) \<noteq> None"
  shows "\<exists>e. upsert_cart_item [] uid pid q s = (Inl e, journal CartItems Upsert (Some e) s)"
  using assms
  by (auto simp: upsert_cart_item_def reject_def split: option.splits)

lemma upsert_calls:
  "calls (snd (upsert_cart_item keys uid pid q s))
   = calls s @ [(CartItems, Upsert, case fst (upsert_cart_item keys uid pid q s) of Inl e \<Rightarrow> Some e | Inr _ \<Rightarrow> None)]"
  by (simp add: upsert_cart_item_def reject_def accept_def journal_def split: option.splits)

lemma addToCart_store:
  "guard_user ss = Some uid \<Longrightarrow> res_store (addToCart ss pid q h s) = snd (upsert_cart_item [] uid pid q s)"
  by (simp add: addToCart_def returned_def caught_def Let_def split: prod.splits sum.splits)

lemma addToCart_accepted:
  assumes "guard_user ss = Some uid" "upsert_cart_item [] uid pid q s = (Inr data, s')"
  shows "data \<in> set (cartItems (res_state (addToCart ss pid q h s)))"
  using assms findIndex_in_range [of "\<lambda>item. ci_product_id item = pid" "cartItems h"]
  by (simp add: addToCart_def returned_def Let_def set_update_memI)

lemma addToCart_rejected:
  assumes "guard_user ss = Some uid" "upsert_cart_item [] uid pid q s = (Inl e, s')"
  shows "addToCart ss pid q h s = caught ''Error adding to cart:'' e h s' [ToastError ''Failed to add to cart'']"
  using assms by (simp add: addToCart_def)

lemma starts_with_iff: "starts_with str sub \<longleftrightarrow> (\<exists>ss. str = sub @ ss)"
  by (induction str sub rule: starts_with.induct) auto

lemma str_includes_iff: "str_includes str sub \<longleftrightarrow> (\<exists>ps ss. str = ps @ sub @ ss)"
proof (induction str)
  case Nil
  then show ?case by simp
next
  case (Cons x xs)
  show ?case
  proof
    assume "str_includes (x # xs) sub"
    then consider "starts_with (x # xs) sub" | "str_includes xs sub" by auto
    then show "\<exists>ps ss. x # xs = ps @ sub @ ss"
    proof cases
      case 1
      then obtain ss where "x # xs = sub @ ss" using starts_with_iff by blast
      then have "x # xs = [] @ sub @ ss" by simp
      then show ?thesis by blast
    next
      case 2
      then obtain ps ss where "xs = ps @ sub @ ss" using Cons.IH by blast
      then have "x # xs = (x # ps) @ sub @ ss" by simp
      then show ?thesis by blast
    qed
  next
    assume "\<exists>ps ss. x # xs = ps @ sub @ ss"
    then obtain ps ss where e: "x # xs = ps @ sub @ ss" by blast
    show "str_includes (x # xs) sub"
    proof (cases ps)
      case Nil
      then have "starts_with (x # xs) sub" using e starts_with_iff by auto
      then show ?thesis by simp
    next
      case (Cons y ys)
      then have "xs = ys @ sub @ ss" using e by simp
      then have "str_includes xs sub" using Cons.IH by blast
      then show ?thesis by simp
    qed
  qed
qed

lemma str_includes_empty: "str_includes str []"
  by (cases str) simp_all

lemma trim_empty: "trim [] = []"
  by (simp add: trim_def)

lemma specified_match_eq:
  "specified_match query categoryId p
   = (matches_query query p \<and> (if truthy categoryId then p_category_id p = categoryId else True))"
  by (cases "p_description p") (simp_all add: specified_match_def matches_query_def contains_ci_def)

lemma specified_filter_eq:
  "specified_filter prods query categoryId
   = filter (\<lambda>p. matches_query query p
                 \<and> (if truthy categoryId then p_category_id p = categoryId else True)) prods"
  unfolding specified_filter_def by (rule filter_cong [OF refl]) (simp add: specified_match_eq)

lemma matches_empty_query: "matches_query [] p"
  by (simp add: matches_query_def toLowerCase_def str_includes_empty)

lemma filterProducts_eq:
  "filterProducts prods searchQuery selectedCategory
   = filter (\<lambda>p. (if trim searchQuery \<noteq> [] then matches_query searchQuery p else True)
                 \<and> (if truthy selectedCategory then p_category_id p = selectedCategory else True)) prods"
  by (simp add: filterProducts_def Let_def conj_commute)

lemma insert_order_rejected:
  "insert_order inp s = (Inl e, s') \<Longrightarrow> s' = journal Orders Insert (Some e) s"
  by (auto simp: insert_order_def reject_def accept_def Let_def split: option.splits if_splits)

lemma insert_order_accepted:
  "insert_order inp s = (Inr order, s') \<Longrightarrow>
   s' = journal Orders Insert None (s\<lparr>orders := orders s @ [order], next_uuid := Suc (next_uuid s)\<rparr>)
   \<and> o_total_amount order = oin_total_amount inp \<and> o_user_id order = oin_user_id inp
   \<and> o_status order = oin_status inp \<and> o_payment_status order = oin_payment_status inp
   \<and> o_id order = gen_random_uuid (next_uuid s)"
  by (auto simp: insert_order_def reject_def accept_def Let_def split: option.splits if_splits)

lemma insert_order_items_rejected:
  "insert_order_items rows s = (Inl e, s') \<Longrightarrow> s' = journal OrderItems Insert (Some e) s"
  by (auto simp: insert_order_items_def reject_def accept_def split: option.splits if_splits)

lemma insert_order_items_accepted:
  "insert_order_items rows s = (Inr u, s') \<Longrightarrow>
   s' = journal OrderItems Insert None
          (s\<lparr>order_items := order_items s @ number_rows (next_uuid s) rows,
              next_uuid := next_uuid s + length rows\<rparr>)"
  by (auto simp: insert_order_items_def reject_def accept_def split: option.splits if_splits)

lemma update_products_rejected:
  "update_products actor patch pid s = (Inl e, s') \<Longrightarrow> s' = journal Products Update (Some e) s"
  by (auto simp: update_products_def reject_def accept_def split: option.splits if_splits)

lemma update_products_accepted:
  "update_products actor patch pid s = (Inr u, s') \<Longrightarrow>
   s' = journal Products Update None
          (s\<lparr>products := (if is_admin s actor
                            then map (\<lambda>p. if p_id p = pid then patch p else p) (products s)
                            else products s)\<rparr>)"
  by (auto simp: update_products_def reject_def accept_def split: option.splits if_splits)

lemma delete_cart_rejected:
  "delete_cart uid s = (Inl e, s') \<Longrightarrow> s' = journal CartItems Delete (Some e) s"
  by (auto simp: delete_cart_def reject_def accept_def split: option.splits if_splits)

lemma delete_cart_accepted:
  "delete_cart uid s = (Inr u, s') \<Longrightarrow>
   s' = journal CartItems Delete None
          (s\<lparr>cart_items := filter (\<lambda>r. c_user_id r \<noteq> uid) (cart_items s)\<rparr>)"
  by (auto simp: delete_cart_def reject_def accept_def split: option.splits if_splits)

lemma update_stock_rejected:
  "update_stock actor items s = (Inl e, s') \<Longrightarrow>
   orders s' = orders s \<and> order_items s' = order_items s \<and> cart_items s' = cart_items s
   \<and> profiles s' = profiles s
   \<and> (\<exists>js. calls s' = calls s @ js @ [(Products, Update, Some e)])"
proof (induction items arbitrary: s)
  case Nil
  then show ?case by simp
next
  case (Cons item items)
  let ?patch = "\<lambda>p. p\<lparr>p_stock_quantity := p_stock_quantity (ci_product item) - ci_quantity item\<rparr>"
  obtain res s1 where up: "update_products actor ?patch (ci_product_id item) s = (res, s1)"
    by (cases "update_products actor ?patch (ci_product_id item) s")
  show ?case
  proof (cases res)
    case (Inl e1)
    then have "s' = s1" "e = e1" using Cons.prems up by simp_all
    then have "s' = journal Products Update (Some e) s"
      using update_products_rejected up Inl by blast
    then have "orders s' = orders s \<and> order_items s' = order_items s \<and> cart_items s' = cart_items s
      \<and> profiles s' = profiles s \<and> calls s' = calls s @ [] @ [(Products, Update, Some e)]"
      by (simp add: journal_def)
    then show ?thesis by blast
  next
    case (Inr u)
    then have rest: "update_stock actor items s1 = (Inl e, s')" using Cons.prems up by simp
    have s1: "orders s1 = orders s" "order_items s1 = order_items s" "cart_items s1 = cart_items s"
      "profiles s1 = profiles s" "calls s1 = calls s @ [(Products, Update, None)]"
      using update_products_accepted [OF up [unfolded Inr]] by (simp_all add: journal_def)
    from Cons.IH [OF rest] obtain js where
      t: "orders s' = orders s1" "order_items s' = order_items s1" "cart_items s' = cart_items s1"
        "profiles s' = profiles s1"
      and c: "calls s' = calls s1 @ js @ [(Products, Update, Some e)]" by blast
    have "calls s' = calls s @ ((Products, Update, None) # js) @ [(Products, Update, Some e)]"
      using c by (simp add: s1)
    moreover have "orders s' = orders s \<and> order_items s' = order_items s \<and> cart_items s' = cart_items s
      \<and> profiles s' = profiles s"
      using t by (simp add: s1)
    ultimately show ?thesis by blast
  qed
qed

lemma update_stock_accepted:
  "update_stock actor items s = (Inr u, s') \<Longrightarrow>
   orders s' = orders s \<and> order_items s' = order_items s \<and> cart_items s' = cart_items s
   \<and> profiles s' = profiles s
   \<and> products s' = (if is_admin s actor
                     then foldl (\<lambda>ps item. map (decrement item) ps) (products s) items
                     else products s)
   \<and> calls s' = calls s @ replicate (length items) (Products, Update, None)"
proof (induction items arbitrary: s)
  case Nil
  then show ?case by simp
next
  case (Cons item items)
  let ?patch = "\<lambda>p. p\<lparr>p_stock_quantity := p_stock_quantity (ci_product item) - ci_quantity item\<rparr>"
  obtain res s1 where up: "update_products actor ?patch (ci_product_id item) s = (res, s1)"
    by (cases "update_products actor ?patch (ci_product_id item) s")
  show ?case
  proof (cases res)
    case (Inl e1)
    then show ?thesis using Cons.prems up by simp
  next
    case (Inr v)
    then have rest: "update_stock actor items s1 = (Inr u, s')" using Cons.prems up by simp
    note acc = update_products_accepted [OF up [unfolded Inr]]
    have p1: "products s1 = (if is_admin s actor then map (decrement item) (products s) else products s)"
      using acc by (simp add: journal_def decrement_def [abs_def])
    have o1: "orders s1 = orders s" "order_items s1 = order_items s" "cart_items s1 = cart_items s"
      "profiles s1 = profiles s" "calls s1 = calls s @ [(Products, Update, None)]"
      using acc by (simp_all add: journal_def)
    have a1: "is_admin s1 actor = is_admin s actor"
      by (simp add: is_admin_def o1)
    from Cons.IH [OF rest] show ?thesis
      by (simp add: p1 o1 a1 replicate_append_same)
  qed
qed

lemma update_products_non_admin:
  "\<not> is_admin s actor \<Longrightarrow>
   products (snd (update_products actor patch pid s)) = products s
   \<and> profiles (snd (update_products actor patch pid s)) = profiles s"
  by (simp add: update_products_def reject_def accept_def journal_def split: option.splits)

lemma update_stock_non_admin:
  "\<not> is_admin s actor \<Longrightarrow> products (snd (update_stock actor items s)) = products s"
proof (induction items arbitrary: s)
  case Nil
  then show ?case by simp
next
  case (Cons item items)
  let ?patch = "\<lambda>p. p\<lparr>p_stock_quantity := p_stock_quantity (ci_product item) - ci_quantity item\<rparr>"
  obtain res s1 where up: "update_products actor ?patch (ci_product_id item) s = (res, s1)"
    by (cases "update_products actor ?patch (ci_product_id item) s")
  have same: "products s1 = products s" "profiles s1 = profiles s"
    using update_products_non_admin [OF Cons.prems, of ?patch "ci_product_id item"] up by simp_all
  then have na: "\<not> is_admin s1 actor" using Cons.prems by (simp add: is_admin_def)
  show ?case
  proof (cases res)
    case (Inl e)
    then show ?thesis using up same by simp
  next
    case (Inr u)
    then show ?thesis using up same Cons.IH [OF na] by simp
  qed
qed

lemma clearCart_rejected:
  "guard_user ss = Some uid \<Longrightarrow> delete_cart uid s = (Inl e, s') \<Longrightarrow>
   clearCart ss h s = caught ''Error clearing cart:'' e h s' [ToastError ''Failed to clear cart'']"
  by (simp add: clearCart_def)

lemma clearCart_accepted:
  "guard_user ss = Some uid \<Longrightarrow> delete_cart uid s = (Inr u, s') \<Longrightarrow>
   clearCart ss h s = returned (h\<lparr>cartItems := []\<rparr>) s' []"
  by (simp add: clearCart_def)

lemma handleCheckout_cases:
  assumes user: "guard_user ss = Some uid"
  obtains
    (order_failed) e s1 where
      "insert_order (order_of_cart uid d h) s = (Inl e, s1)"
      "handleCheckout ss d h s = checkout_failed e h s1"
  | (lines_failed) order s1 e s2 where
      "insert_order (order_of_cart uid d h) s = (Inr order, s1)"
      "insert_order_items (orderItems order (cartItems h)) s1 = (Inl e, s2)"
      "handleCheckout ss d h s = checkout_failed e h s2"
  | (stock_failed) order s1 s2 e s3 where
      "insert_order (order_of_cart uid d h) s = (Inr order, s1)"
      "insert_order_items (orderItems order (cartItems h)) s1 = (Inr (), s2)"
      "update_stock uid (cartItems h) s2 = (Inl e, s3)"
      "handleCheckout ss d h s = checkout_failed e h s3"
  | (clear_failed) order s1 s2 s3 e s4 where
      "insert_order (order_of_cart uid d h) s = (Inr order, s1)"
      "insert_order_items (orderItems order (cartItems h)) s1 = (Inr (), s2)"
      "update_stock uid (cartItems h) s2 = (Inr (), s3)"
      "delete_cart uid s3 = (Inl e, s4)"
      "res_store (handleCheckout ss d h s) = s4"
      "res_state (handleCheckout ss d h s) = h"
  | (placed) order s1 s2 s3 s4 where
      "insert_order (order_of_cart uid d h) s = (Inr order, s1)"
      "insert_order_items (orderItems order (cartItems h)) s1 = (Inr (), s2)"
      "update_stock uid (cartItems h) s2 = (Inr (), s3)"
      "delete_cart uid s3 = (Inr (), s4)"
      "res_store (handleCheckout ss d h s) = s4"
      "res_state (handleCheckout ss d h s) = h\<lparr>cartItems := []\<rparr>"
      "res_closed (handleCheckout ss d h s)"
proof -
  obtain r1 s1 where a1: "insert_order (order_of_cart uid d h) s = (r1, s1)"
    by (cases "insert_order (order_of_cart uid d h) s")
  show thesis
  proof (cases r1)
    case (Inl e)
    show thesis
      by (rule order_failed [of e s1]) (simp_all add: a1 Inl handleCheckout_def user)
  next
    case (Inr order)
    note b1 = a1 [unfolded Inr]
    obtain r2 s2 where a2: "insert_order_items (orderItems order (cartItems h)) s1 = (r2, s2)"
      by (cases "insert_order_items (orderItems order (cartItems h)) s1")
    show thesis
    proof (cases r2)
      case (Inl e)
      show thesis
        by (rule lines_failed [of order s1 e s2]) (simp_all add: b1 a2 Inl handleCheckout_def user)
    next
      case (Inr u2)
      note b2 = a2 [unfolded Inr, simplified]
      obtain r3 s3 where a3: "update_stock uid (cartItems h) s2 = (r3, s3)"
        by (cases "update_stock uid (cartItems h) s2")
      show thesis
      proof (cases r3)
        case (Inl e)
        show thesis
          by (rule stock_failed [of order s1 s2 e s3]) (simp_all add: b1 b2 a3 Inl handleCheckout_def user)
      next
        case (Inr u3)
        note b3 = a3 [unfolded Inr, simplified]
        obtain r4 s4 where a4: "delete_cart uid s3 = (r4, s4)"
          by (cases "delete_cart uid s3")
        show thesis
        proof (cases r4)
          case (Inl e)
          note b4 = a4 [unfolded Inl]
          show thesis
            by (rule clear_failed [of order s1 s2 s3 e s4])
              (simp_all add: b1 b2 b3 b4 handleCheckout_def user clearCart_rejected [OF user b4]
                caught_def Let_def)
        next
          case (Inr u4)
          note b4 = a4 [unfolded Inr]
          show thesis
            by (rule placed [of order s1 s2 s3 s4])
              (simp_all add: b1 b2 b3 b4 handleCheckout_def user clearCart_accepted [OF user b4]
                returned_def Let_def)
        qed
      qed
    qed
  qed
qed

lemma not_all_succeeded:
  "calls s' = calls s @ js @ [(t, v, Some e)] \<Longrightarrow> \<not> every_call_succeeded s s'"
  by (simp add: every_call_succeeded_def new_calls_def)

lemma handleCheckout_placed:
  assumes user: "guard_user ss = Some uid"
    and ok: "every_call_succeeded s (res_store (handleCheckout ss d h s))"
  obtains order s1 s2 s3 s4 where
      "insert_order (order_of_cart uid d h) s = (Inr order, s1)"
      "insert_order_items (orderItems order (cartItems h)) s1 = (Inr (), s2)"
      "update_stock uid (cartItems h) s2 = (Inr (), s3)"
      "delete_cart uid s3 = (Inr (), s4)"
      "res_store (handleCheckout ss d h s) = s4"
      "res_state (handleCheckout ss d h s) = h\<lparr>cartItems := []\<rparr>"
      "res_closed (handleCheckout ss d h s)"
  using user
proof (cases rule: handleCheckout_cases [where d = d and h = h and s = s])
  case (order_failed e s1)
  have "calls s1 = calls s @ [] @ [(Orders, Insert, Some e)]"
    using insert_order_rejected [OF order_failed(1)] by (simp add: journal_def)
  then have "\<not> every_call_succeeded s s1" by (rule not_all_succeeded)
  then show thesis using ok by (simp add: order_failed(2) checkout_failed_def)
next
  case (lines_failed order s1 e s2)
  have "calls s2 = calls s @ [(Orders, Insert, None)] @ [(OrderItems, Insert, Some e)]"
    using insert_order_accepted [OF lines_failed(1)] insert_order_items_rejected [OF lines_failed(2)]
    by (simp add: journal_def)
  then have "\<not> every_call_succeeded s s2" by (rule not_all_succeeded)
  then show thesis using ok by (simp add: lines_failed(3) checkout_failed_def)
next
  case (stock_failed order s1 s2 e s3)
  obtain js where "calls s3 = calls s2 @ js @ [(Products, Update, Some e)]"
    using update_stock_rejected [OF stock_failed(3)] by blast
  then have "calls s3 = calls s @ ([(Orders, Insert, None), (OrderItems, Insert, None)] @ js) @ [(Products, Update, Some e)]"
    using insert_order_accepted [OF stock_failed(1)] insert_order_items_accepted [OF stock_failed(2)]
    by (simp add: journal_def)
  then have "\<not> every_call_succeeded s s3" by (rule not_all_succeeded)
  then show thesis using ok by (simp add: stock_failed(4) checkout_failed_def)
next
  case (clear_failed order s1 s2 s3 e s4)
  have "calls s4 = calls s @ ([(Orders, Insert, None), (OrderItems, Insert, None)]
          @ replicate (length (cartItems h)) (Products, Update, None)) @ [(CartItems, Delete, Some e)]"
    using insert_order_accepted [OF clear_failed(1)] insert_order_items_accepted [OF clear_failed(2)]
      update_stock_accepted [OF clear_failed(3)] delete_cart_rejected [OF clear_failed(4)]
    by (simp add: journal_def)
  then have "\<not> every_call_succeeded s s4" by (rule not_all_succeeded)
  then show thesis using ok by (simp add: clear_failed(5))
next
  case (placed order s1 s2 s3 s4)
  then show thesis using that by blast
qed


lemma cart_of_member:
  assumes "item \<in> set (cart_of s uid)"
  shows "find_product (products s) (ci_product_id item) = Some (ci_product item)"
proof -
  from assms obtain c where "item \<in> set (join_product (products s) c)"
    by (auto simp: cart_of_def)
  then show ?thesis
    by (cases "find_product (products s) (c_product_id c)") (simp_all add: join_product_def)
qed

lemma find_Some_member: "find P xs = Some x \<Longrightarrow> x \<in> set xs \<and> P x"
  by (induction xs) (simp_all split: if_splits)

lemma find_product_unique:
  assumes d: "distinct (map p_id ps)" and f: "find_product ps k = Some x"
    and p: "p \<in> set ps" "p_id p = k"
  shows "p = x"
proof -
  have "x \<in> set ps" "p_id x = k"
    using f find_Some_member [of "\<lambda>p. p_id p = k" ps x] by (simp_all add: find_product_def)
  moreover have "inj_on p_id (set ps)" using d by (simp add: distinct_map)
  ultimately show ?thesis using p by (auto dest: inj_onD)
qed

lemma decrement_in_sync:
  assumes d: "distinct (map p_id ps)" and f: "find_product ps (ci_product_id item) = Some (ci_product item)"
    and p: "p \<in> set ps"
  shows "decrement item p =
         (if p_id p = ci_product_id item
          then p\<lparr>p_stock_quantity := p_stock_quantity p - ci_quantity item\<rparr> else p)"
proof (cases "p_id p = ci_product_id item")
  case True
  then have "p = ci_product item" using find_product_unique [OF d f p] by simp
  then show ?thesis using True by (simp add: decrement_def)
next
  case False
  then show ?thesis by (simp add: decrement_def)
qed

lemma number_rows_prices:
  "map oi_price (number_rows n rows) = map oii_price rows
   \<and> map oi_product_id (number_rows n rows) = map oii_product_id rows"
  by (induction rows arbitrary: n) simp_all

lemma orderItems_prices:
  "map oii_price (orderItems order items) = map (\<lambda>item. p_price (ci_product item)) items
   \<and> map oii_product_id (orderItems order items) = map ci_product_id items"
  by (simp add: orderItems_def comp_def)

lemma new_lines_same: "order_items s' = order_items s \<Longrightarrow> new_lines s s' = []"
  by (simp add: new_lines_def)

lemma new_lines_appended: "order_items s' = order_items s @ ls \<Longrightarrow> new_lines s s' = ls"
  by (simp add: new_lines_def)

lemma handleCheckout_new_lines:
  "new_lines s (res_store (handleCheckout ss d h s)) = []
   \<or> (\<exists>n order. new_lines s (res_store (handleCheckout ss d h s))
                  = number_rows n (orderItems order (cartItems h)))"
proof (cases "guard_user ss")
  case None
  then show ?thesis by (simp add: handleCheckout_def new_lines_def)
next
  case (Some uid)
  then show ?thesis
  proof (cases rule: handleCheckout_cases [where d = d and h = h and s = s])
    case (order_failed e s1)
    have "order_items s1 = order_items s"
      using insert_order_rejected [OF order_failed(1)] by (simp add: journal_def)
    then show ?thesis by (simp add: order_failed(2) checkout_failed_def new_lines_same)
  next
    case (lines_failed order s1 e s2)
    have "order_items s2 = order_items s"
      using insert_order_accepted [OF lines_failed(1)] insert_order_items_rejected [OF lines_failed(2)]
      by (simp add: journal_def)
    then show ?thesis by (simp add: lines_failed(3) checkout_failed_def new_lines_same)
  next
    case (stock_failed order s1 s2 e s3)
    have "order_items s3 = order_items s @ number_rows (next_uuid s1) (orderItems order (cartItems h))"
      using insert_order_accepted [OF stock_failed(1)] insert_order_items_accepted [OF stock_failed(2)]
        update_stock_rejected [OF stock_failed(3)]
      by (simp add: journal_def)
    then have "new_lines s s3 = number_rows (next_uuid s1) (orderItems order (cartItems h))"
      by (rule new_lines_appended)
    then show ?thesis by (auto simp: stock_failed(4) checkout_failed_def)
  next
    case (clear_failed order s1 s2 s3 e s4)
    have "order_items s4 = order_items s @ number_rows (next_uuid s1) (orderItems order (cartItems h))"
      using insert_order_accepted [OF clear_failed(1)] insert_order_items_accepted [OF clear_failed(2)]
        update_stock_accepted [OF clear_failed(3)] delete_cart_rejected [OF clear_failed(4)]
      by (simp add: journal_def)
    then have "new_lines s s4 = number_rows (next_uuid s1) (orderItems order (cartItems h))"
      by (rule new_lines_appended)
    then show ?thesis by (auto simp: clear_failed(5))
  next
    case (placed order s1 s2 s3 s4)
    have "order_items s4 = order_items s @ number_rows (next_uuid s1) (orderItems order (cartItems h))"
      using insert_order_accepted [OF placed(1)] insert_order_items_accepted [OF placed(2)]
        update_stock_accepted [OF placed(3)] delete_cart_accepted [OF placed(4)]
      by (simp add: journal_def)
    then have "new_lines s s4 = number_rows (next_uuid s1) (orderItems order (cartItems h))"
      by (rule new_lines_appended)
    then show ?thesis by (auto simp: placed(5))
  qed
qed

lemma lines_at_catalog_price:
  assumes "\<And>item. item \<in> set items \<Longrightarrow> find_product (products s) (ci_product_id item) = Some (ci_product item)"
  shows "list_all (\<lambda>l. catalog_price s (oi_product_id l) = Some (oi_price l))
           (number_rows n (orderItems order items))"
  using assms
proof (induction items arbitrary: n)
  case Nil
  then show ?case by (simp add: orderItems_def)
next
  case (Cons item items)
  have "list_all (\<lambda>l. catalog_price s (oi_product_id l) = Some (oi_price l))
           (number_rows (Suc n) (orderItems order items))"
    by (rule Cons.IH) (simp add: Cons.prems)
  moreover have "catalog_price s (ci_product_id item) = Some (p_price (ci_product item))"
    using Cons.prems [of item] by (simp add: catalog_price_def)
  ultimately show ?case by (simp add: orderItems_def)
qed

lemma update_products_order_items:
  "order_items (snd (update_products actor patch pid s)) = order_items s"
  by (simp add: update_products_def reject_def accept_def journal_def split: option.splits)

lemma update_products_stock_nonnegative:
  assumes "list_all (\<lambda>p. 0 \<le> p_stock_quantity p) (products s)"
  shows "list_all (\<lambda>p. 0 \<le> p_stock_quantity p) (products (snd (update_products actor patch pid s)))"
  using assms
  by (auto simp: update_products_def reject_def accept_def journal_def list_all_iff product_ok_def
      split: option.splits)

lemma update_stock_stock_nonnegative:
  "list_all (\<lambda>p. 0 \<le> p_stock_quantity p) (products s) \<Longrightarrow>
   list_all (\<lambda>p. 0 \<le> p_stock_quantity p) (products (snd (update_stock actor items s)))"
proof (induction items arbitrary: s)
  case Nil
  then show ?case by simp
next
  case (Cons item items)
  let ?patch = "\<lambda>p. p\<lparr>p_stock_quantity := p_stock_quantity (ci_product item) - ci_quantity item\<rparr>"
  obtain res s1 where up: "update_products actor ?patch (ci_product_id item) s = (res, s1)"
    by (cases "update_products actor ?patch (ci_product_id item) s")
  have s1: "list_all (\<lambda>p. 0 \<le> p_stock_quantity p) (products s1)"
    using update_products_stock_nonnegative [OF Cons.prems, of actor ?patch "ci_product_id item"] up by simp
  show ?case
  proof (cases res)
    case (Inl e)
    then show ?thesis using up s1 by simp
  next
    case (Inr u)
    then show ?thesis using up Cons.IH [OF s1] by simp
  qed
qed

section \<open>The Cart Ledger\<close>

text \<open>
  C7. For a signed-in user (and for any session) \<^verbatim>\<open>updateQuantity(productId, q)\<close> with
  \<open>q \<le> 0\<close> is \<^verbatim>\<open>removeFromCart(productId)\<close>: the two runs end in the same store, the same
  local cart, the same notifications. In particular a quantity of zero removes the entry.
\<close>

theorem updateQuantity_nonpositive_is_remove:
  "quantity \<le> 0 \<Longrightarrow> updateQuantity ss productId quantity h s = removeFromCart ss productId h s"
  by (simp add: updateQuantity_def removeFromCart_def split: option.splits)

theorem updateQuantity_zero_witness:
  "(0::int) \<le> 0
   \<and> updateQuantity alice ''p1'' 0 (cart [entry ''c1'' shoes 2, entry ''c2'' tshirt 1])
         (shop [row ''c1'' shoes 2, row ''c2'' tshirt 1] [])
       = removeFromCart alice ''p1'' (cart [entry ''c1'' shoes 2, entry ''c2'' tshirt 1])
           (shop [row ''c1'' shoes 2, row ''c2'' tshirt 1] [])
   \<and> cartItems (res_state (updateQuantity alice ''p1'' 0 (cart [entry ''c1'' shoes 2, entry ''c2'' tshirt 1])
         (shop [row ''c1'' shoes 2, row ''c2'' tshirt 1] []))) = [entry ''c2'' tshirt 1]
   \<and> cart_items (res_store (updateQuantity alice ''p1'' 0 (cart [entry ''c1'' shoes 2, entry ''c2'' tshirt 1])
         (shop [row ''c1'' shoes 2, row ''c2'' tshirt 1] []))) = [row ''c2'' tshirt 1]"
  using updateQuantity_nonpositive_is_remove [of 0 alice "''p1''" "cart [entry ''c1'' shoes 2, entry ''c2'' tshirt 1]"
      "shop [row ''c1'' shoes 2, row ''c2'' tshirt 1] []"]
  by (simp add: removeFromCart_def guard_user_def alice_def delete_cart_item_def scheduled_fault_def
      shop_def accept_def journal_def returned_def cart_def entry_def row_def is_entry_def
      shoes_def tshirt_def)

text \<open>
  C8. Whichever of the five operations runs (load, add, setQuantity, remove, clear): when
  the store rejects the call the operation issues, the operation ends normally (nothing
  is thrown to the caller), the error is logged, and the list of cart items the hook
  holds is the one it held before.
\<close>

theorem cart_op_store_error_keeps_local_cart:
  "store_reported_error s (res_store (run_cart_op ss op h s)) \<Longrightarrow>
   cartItems (res_state (run_cart_op ss op h s)) = cartItems h
   \<and> res_thrown (run_cart_op ss op h s) = None
   \<and> res_console (run_cart_op ss op h s) \<noteq> []"
  by (cases op)
    (simp_all add: fetchCartItems_error addToCart_error updateQuantity_error removeFromCart_error
      clearCart_error)

theorem cart_op_store_error_witness:
  "store_reported_error (shop [row ''c1'' shoes 2] [Some NetworkError])
     (res_store (run_cart_op alice (SetQuantity ''p1'' 3) (cart [entry ''c1'' shoes 2])
        (shop [row ''c1'' shoes 2] [Some NetworkError])))
   \<and> cartItems (res_state (run_cart_op alice (SetQuantity ''p1'' 3) (cart [entry ''c1'' shoes 2])
        (shop [row ''c1'' shoes 2] [Some NetworkError]))) = [entry ''c1'' shoes 2]
   \<and> res_thrown (run_cart_op alice (SetQuantity ''p1'' 3) (cart [entry ''c1'' shoes 2])
        (shop [row ''c1'' shoes 2] [Some NetworkError])) = None"
proof -
  have rejected:
    "store_reported_error (shop [row ''c1'' shoes 2] [Some NetworkError])
       (res_store (run_cart_op alice (SetQuantity ''p1'' 3) (cart [entry ''c1'' shoes 2])
          (shop [row ''c1'' shoes 2] [Some NetworkError])))"
    by (simp add: store_defs hook_defs journal_defs shop_defs)
  from cart_op_store_error_keeps_local_cart [OF rejected] rejected
  show ?thesis by (simp add: cart_def)
qed

text \<open>
  C10. When the upsert of \<^verbatim>\<open>addToCart(productId, q)\<close> succeeds and returns the row \<open>data\<close>:
  if the local list holds an entry for the product, the first such entry is replaced by
  \<open>data\<close> where it stands, the entries before and after it staying as and where they
  were; if it holds none, \<open>data\<close> is appended after the unchanged list.
\<close>

theorem addToCart_keeps_positions:
  assumes user: "guard_user ss = Some uid"
    and ok: "upsert_cart_item [] uid productId quantity s = (Inr data, s')"
  shows "(list_all (\<lambda>item. ci_product_id item \<noteq> productId) before \<and> ci_product_id e = productId
          \<and> cartItems h = before @ e # after
          \<longrightarrow> cartItems (res_state (addToCart ss productId quantity h s)) = before @ data # after)
       \<and> (list_all (\<lambda>item. ci_product_id item \<noteq> productId) (cartItems h)
          \<longrightarrow> cartItems (res_state (addToCart ss productId quantity h s)) = cartItems h @ [data])"
proof (intro conjI impI)
  assume a: "list_all (\<lambda>item. ci_product_id item \<noteq> productId) before \<and> ci_product_id e = productId
          \<and> cartItems h = before @ e # after"
  then have "findIndex (\<lambda>item. ci_product_id item = productId) (cartItems h) = int (length before)"
    using findIndex_first [of "\<lambda>item. ci_product_id item = productId" before e after] by simp
  then show "cartItems (res_state (addToCart ss productId quantity h s)) = before @ data # after"
    using a user ok by (simp add: addToCart_def returned_def)
next
  assume "list_all (\<lambda>item. ci_product_id item \<noteq> productId) (cartItems h)"
  then have "findIndex (\<lambda>item. ci_product_id item = productId) (cartItems h) = - 1"
    using findIndex_none [of "\<lambda>item. ci_product_id item = productId" "cartItems h"] by simp
  then show "cartItems (res_state (addToCart ss productId quantity h s)) = cartItems h @ [data]"
    using user ok by (simp add: addToCart_def returned_def)
qed

theorem addToCart_keeps_positions_witness:
  "guard_user alice = Some ''u1''
   \<and> fst (upsert_cart_item [] ''u1'' ''p1'' 5 (shop [row ''c2'' tshirt 1, row ''c3'' mug 1] []))
       = Inr (entry ''uuid-'' shoes 5)
   \<and> cartItems (res_state (addToCart alice ''p1'' 5
         (cart [entry ''c2'' tshirt 1, entry ''c1'' shoes 2, entry ''c3'' mug 1])
         (shop [row ''c2'' tshirt 1, row ''c3'' mug 1] [])))
       = [entry ''c2'' tshirt 1, entry ''uuid-'' shoes 5, entry ''c3'' mug 1]
   \<and> fst (upsert_cart_item [] ''u1'' ''p3'' 1 (shop [row ''c2'' tshirt 1, row ''c1'' shoes 2] []))
       = Inr (entry ''uuid-'' mug 1)
   \<and> cartItems (res_state (addToCart alice ''p3'' 1
         (cart [entry ''c2'' tshirt 1, entry ''c1'' shoes 2])
         (shop [row ''c2'' tshirt 1, row ''c1'' shoes 2] [])))
       = [entry ''c2'' tshirt 1, entry ''c1'' shoes 2, entry ''uuid-'' mug 1]"
proof -
  let ?s1 = "shop [row ''c2'' tshirt 1, row ''c3'' mug 1] []"
  let ?s2 = "shop [row ''c2'' tshirt 1, row ''c1'' shoes 2] []"
  have user: "guard_user alice = Some ''u1''"
    by (simp add: guard_user_def alice_def)
  have f1: "fst (upsert_cart_item [] ''u1'' ''p1'' 5 ?s1) = Inr (entry ''uuid-'' shoes 5)"
    by (simp add: store_defs shop_defs)
  have f2: "fst (upsert_cart_item [] ''u1'' ''p3'' 1 ?s2) = Inr (entry ''uuid-'' mug 1)"
    by (simp add: store_defs shop_defs)
  have ok1: "upsert_cart_item [] ''u1'' ''p1'' 5 ?s1
             = (Inr (entry ''uuid-'' shoes 5), snd (upsert_cart_item [] ''u1'' ''p1'' 5 ?s1))"
    using f1 by (simp add: prod_eq_iff)
  have ok2: "upsert_cart_item [] ''u1'' ''p3'' 1 ?s2
             = (Inr (entry ''uuid-'' mug 1), snd (upsert_cart_item [] ''u1'' ''p3'' 1 ?s2))"
    using f2 by (simp add: prod_eq_iff)
  have r1: "cartItems (res_state (addToCart alice ''p1'' 5
         (cart [entry ''c2'' tshirt 1, entry ''c1'' shoes 2, entry ''c3'' mug 1]) ?s1))
       = [entry ''c2'' tshirt 1, entry ''uuid-'' shoes 5, entry ''c3'' mug 1]"
    using addToCart_keeps_positions [OF user ok1, of "[entry ''c2'' tshirt 1]" "entry ''c1'' shoes 2"
        "cart [entry ''c2'' tshirt 1, entry ''c1'' shoes 2, entry ''c3'' mug 1]" "[entry ''c3'' mug 1]"]
    by (simp add: cart_def entry_def shoes_def tshirt_def mug_def)
  have r2: "cartItems (res_state (addToCart alice ''p3'' 1
         (cart [entry ''c2'' tshirt 1, entry ''c1'' shoes 2]) ?s2))
       = [entry ''c2'' tshirt 1, entry ''c1'' shoes 2, entry ''uuid-'' mug 1]"
    using addToCart_keeps_positions [OF user ok2, of "[]" undefined
        "cart [entry ''c2'' tshirt 1, entry ''c1'' shoes 2]" "[]"]
    by (simp add: cart_def entry_def shoes_def tshirt_def mug_def)
  from user f1 r1 f2 r2 show ?thesis by simp
qed

text \<open>
  C4 does not hold of the code. \<^verbatim>\<open>addToCart\<close> upserts without conflict keys, so the store
  resolves conflicts on the primary key only. For a signed-in user, whenever the call of
  \<^verbatim>\<open>addToCart(productId, q1)\<close> has succeeded, the call of a following
  \<^verbatim>\<open>addToCart(productId, q2)\<close> is rejected, whatever \<open>q2\<close> is: the store keeps its one row
  of the pair with quantity \<open>q1\<close>, the local list is left as the first call made it, with
  an entry of quantity \<open>q1\<close> for the product, and the user is told \<open>Failed to add to cart\<close>.
\<close>

theorem addToCart_again_is_rejected:
  fixes ss :: session and productId :: uuid and q1 q2 :: int and h :: cart_state and s :: store
    and r1 r2 :: cart_result
  defines "r1 \<equiv> addToCart ss productId q1 h s"
  defines "r2 \<equiv> addToCart ss productId q2 (res_state r1) (res_store r1)"
  assumes user: "guard_user ss = Some uid"
    and first: "every_call_succeeded s (res_store r1)"
  shows "store_reported_error (res_store r1) (res_store r2)
       \<and> map c_quantity (filter (is_entry uid productId) (cart_items (res_store r2))) = [q1]
       \<and> cartItems (res_state r2) = cartItems (res_state r1)
       \<and> list_ex (\<lambda>item. ci_product_id item = productId \<and> ci_quantity item = q1) (cartItems (res_state r2))
       \<and> res_toasts r2 = [ToastError ''Failed to add to cart'']"
proof -
  obtain o1 s1 where u1: "upsert_cart_item [] uid productId q1 s = (o1, s1)"
    by (cases "upsert_cart_item [] uid productId q1 s")
  have st1: "res_store r1 = s1" using user u1 by (simp add: r1_def addToCart_store)
  have c1: "calls s1 = calls s @ [(CartItems, Upsert, case o1 of Inl e \<Rightarrow> Some e | Inr _ \<Rightarrow> None)]"
    using upsert_calls [of "[]" uid productId q1 s] u1 by simp
  have "(case o1 of Inl e \<Rightarrow> Some e | Inr _ \<Rightarrow> None) = None"
    using first by (simp add: every_call_succeeded_def new_calls_def st1 c1)
  then obtain d1 where o1: "o1 = Inr d1" by (cases o1) simp_all
  note a1 = u1 [unfolded o1]
  from upsert_default_accepted [OF a1] obtain new where
    none: "find (is_entry uid productId) (cart_items s) = None" and
    new: "is_entry uid productId new" "c_quantity new = q1" "cart_items s1 = cart_items s @ [new]" and
    d1: "ci_product_id d1 = productId" "ci_quantity d1 = q1"
    by blast
  have "find (is_entry uid productId) (cart_items s1) \<noteq> None"
    unfolding new(3) using new(1) by (rule find_append_last)
  then obtain e where u2: "upsert_cart_item [] uid productId q2 s1 = (Inl e, journal CartItems Upsert (Some e) s1)"
    using upsert_default_existing [of uid productId s1 q2] by blast
  have r2: "r2 = caught ''Error adding to cart:'' e (res_state r1) (journal CartItems Upsert (Some e) s1)
      [ToastError ''Failed to add to cart'']"
    unfolding r2_def st1 using user u2 by (rule addToCart_rejected)
  have rows: "filter (is_entry uid productId) (cart_items s1) = [new]"
    unfolding new(3) using none new(1) by (rule append_single)
  have local: "d1 \<in> set (cartItems (res_state r1))"
    unfolding r1_def using user a1 by (rule addToCart_accepted)
  have held: "list_ex (\<lambda>item. ci_product_id item = productId \<and> ci_quantity item = q1) (cartItems (res_state r1))"
    unfolding list_ex_iff using local d1 by blast
  show ?thesis
    using rows new(2) held
    by (simp add: r2 st1 caught_def journal_def store_reported_error_def new_calls_def rejected_def)
qed

theorem addToCart_again_witness:
  "guard_user alice = Some ''u1''
   \<and> every_call_succeeded (shop [] []) (res_store (addToCart alice ''p1'' 3 (cart []) (shop [] [])))
   \<and> store_reported_error (res_store (addToCart alice ''p1'' 3 (cart []) (shop [] [])))
        (res_store (addToCart alice ''p1'' 5 (res_state (addToCart alice ''p1'' 3 (cart []) (shop [] [])))
           (res_store (addToCart alice ''p1'' 3 (cart []) (shop [] [])))))
   \<and> map c_quantity (filter (is_entry ''u1'' ''p1'')
        (cart_items (res_store (addToCart alice ''p1'' 5 (res_state (addToCart alice ''p1'' 3 (cart []) (shop [] [])))
           (res_store (addToCart alice ''p1'' 3 (cart []) (shop [] []))))))) = [3]
   \<and> map ci_quantity
        (cartItems (res_state (addToCart alice ''p1'' 5 (res_state (addToCart alice ''p1'' 3 (cart []) (shop [] [])))
           (res_store (addToCart alice ''p1'' 3 (cart []) (shop [] [])))))) = [3]"
proof -
  have user: "guard_user alice = Some ''u1''"
    by (simp add: guard_user_def alice_def)
  have first: "every_call_succeeded (shop [] []) (res_store (addToCart alice ''p1'' 3 (cart []) (shop [] [])))"
    by (simp add: store_defs hook_defs journal_defs shop_defs)
  have local1: "map ci_quantity (cartItems (res_state (addToCart alice ''p1'' 3 (cart []) (shop [] [])))) = [3]"
    by (simp add: store_defs hook_defs shop_defs)
  from addToCart_again_is_rejected [OF user first, of 5] user first local1
  show ?thesis by simp
qed

section \<open>The catalog filter\<close>

text \<open>
  C9, as the specification words it, fails on a query of white space only: the code
  tests \<^verbatim>\<open>searchQuery.trim()\<close> and applies no text filter, so a product whose name and
  description hold no space is kept for the query of one space.
\<close>

theorem filterProducts_blank_query_counterexample:
  "filterProducts [mug] '' '' None = [mug] \<and> specified_filter [mug] '' '' None = []"
  by (simp add: filterProducts_def specified_filter_def specified_match_def contains_ci_def
      toLowerCase_def lower_char_def trim_def is_space_def truthy_def mug_def)

text \<open>
  C9, amended. For every product list, query and category selection: when the query is
  empty or holds a character that is not white space, \<^verbatim>\<open>filterProducts\<close> keeps exactly the
  products whose name or description contains the query without regard to case (an
  absent description not matching), restricted to the selected category when one is
  selected, in the order of the input; when the query is white space only it is treated
  as the empty query; with the empty query and no category the result is the input.
\<close>

theorem filterProducts_as_specified:
  "(searchQuery = [] \<or> trim searchQuery \<noteq> []
      \<longrightarrow> filterProducts prods searchQuery selectedCategory
          = specified_filter prods searchQuery selectedCategory)
   \<and> (trim searchQuery = []
      \<longrightarrow> filterProducts prods searchQuery selectedCategory = specified_filter prods [] selectedCategory)
   \<and> filterProducts prods [] None = prods"
proof (intro conjI impI)
  assume "searchQuery = [] \<or> trim searchQuery \<noteq> []"
  then show "filterProducts prods searchQuery selectedCategory
             = specified_filter prods searchQuery selectedCategory"
    by (auto simp: filterProducts_eq specified_filter_eq trim_empty matches_empty_query)
next
  assume "trim searchQuery = []"
  then show "filterProducts prods searchQuery selectedCategory = specified_filter prods [] selectedCategory"
    by (simp add: filterProducts_eq specified_filter_eq matches_empty_query)
next
  show "filterProducts prods [] None = prods"
    by (simp add: filterProducts_eq trim_empty truthy_def)
qed

theorem filterProducts_witness:
  "trim ''shoe'' \<noteq> []
   \<and> filterProducts [shoes, tshirt, mug] ''shoe'' None = [shoes]
   \<and> specified_filter [shoes, tshirt, mug] ''shoe'' None = [shoes]
   \<and> trim '' '' = []
   \<and> filterProducts [shoes, tshirt, mug] '' '' (Some ''clothing'') = [shoes, tshirt]
   \<and> specified_filter [shoes, tshirt, mug] [] (Some ''clothing'') = [shoes, tshirt]"
proof -
  have t1: "trim ''shoe'' \<noteq> []" and t2: "trim '' '' = []"
    by (simp_all add: trim_def is_space_def)
  have s1: "specified_filter [shoes, tshirt, mug] ''shoe'' None = [shoes]"
    by (simp add: specified_filter_def specified_match_def contains_ci_def
      toLowerCase_def lower_char_def truthy_def shoes_def tshirt_def mug_def)
  have s2: "specified_filter [shoes, tshirt, mug] [] (Some ''clothing'') = [shoes, tshirt]"
    by (simp add: specified_filter_def specified_match_def contains_ci_def
      toLowerCase_def lower_char_def truthy_def shoes_def tshirt_def mug_def str_includes_empty)
  from filterProducts_as_specified [of "''shoe''" "[shoes, tshirt, mug]" None]
       filterProducts_as_specified [of "'' ''" "[shoes, tshirt, mug]" "Some ''clothing''"]
       t1 t2 s1 s2
  show ?thesis by simp
qed

section \<open>The checkout\<close>

lemma checkout_non_admin_keeps_products:
  assumes user: "guard_user ss = Some uid" and plain: "\<not> is_admin s uid"
  shows "products (res_store (handleCheckout ss d h s)) = products s"
  using user
proof (cases rule: handleCheckout_cases [where d = d and h = h and s = s])
  case (order_failed e s1)
  then show ?thesis
    using insert_order_rejected [OF order_failed(1)] by (simp add: checkout_failed_def journal_def)
next
  case (lines_failed order s1 e s2)
  then show ?thesis
    using insert_order_accepted [OF lines_failed(1)] insert_order_items_rejected [OF lines_failed(2)]
    by (simp add: checkout_failed_def journal_def)
next
  case (stock_failed order s1 s2 e s3)
  have s2: "products s2 = products s" "profiles s2 = profiles s"
    using insert_order_accepted [OF stock_failed(1)] insert_order_items_accepted [OF stock_failed(2)]
    by (simp_all add: journal_def)
  then have "\<not> is_admin s2 uid" using plain by (simp add: is_admin_def)
  then have "products s3 = products s2"
    using update_stock_non_admin [of s2 uid "cartItems h"] stock_failed(3) by simp
  then show ?thesis by (simp add: stock_failed(4) checkout_failed_def s2)
next
  case (clear_failed order s1 s2 s3 e s4)
  have s2: "products s2 = products s" "profiles s2 = profiles s"
    using insert_order_accepted [OF clear_failed(1)] insert_order_items_accepted [OF clear_failed(2)]
    by (simp_all add: journal_def)
  then have "\<not> is_admin s2 uid" using plain by (simp add: is_admin_def)
  then have "products s3 = products s2"
    using update_stock_non_admin [of s2 uid "cartItems h"] clear_failed(3) by simp
  moreover have "products s4 = products s3"
    using delete_cart_rejected [OF clear_failed(4)] by (simp add: journal_def)
  ultimately show ?thesis by (simp add: clear_failed(5) s2)
next
  case (placed order s1 s2 s3 s4)
  have s2: "products s2 = products s" "profiles s2 = profiles s"
    using insert_order_accepted [OF placed(1)] insert_order_items_accepted [OF placed(2)]
    by (simp_all add: journal_def)
  then have "\<not> is_admin s2 uid" using plain by (simp add: is_admin_def)
  then have "products s3 = products s2"
    using update_stock_non_admin [of s2 uid "cartItems h"] placed(3) by simp
  moreover have "products s4 = products s3"
    using delete_cart_accepted [OF placed(4)] by (simp add: journal_def)
  ultimately show ?thesis by (simp add: placed(5) s2)
qed

text \<open>What the checkout of a two-entry cart does when the buyer is an administrator and
  the local cart is what the store holds: then, and under these two conditions only, the
  stock of each product is lowered by the quantity bought.\<close>

lemma checkout_two_items_admin_in_sync:
  assumes user: "guard_user ss = Some uid"
    and admin: "is_admin s uid"
    and items: "cartItems h = [a, b]"
    and qa: "ci_quantity a = 2" and qb: "ci_quantity b = 1"
    and distinct_products: "ci_product_id a \<noteq> ci_product_id b"
    and sync: "cart_of s uid = cartItems h"
    and pk: "products_unique s"
    and ok: "every_call_succeeded s (res_store (handleCheckout ss d h s))"
  shows "\<exists>order l1 l2.
           orders (res_store (handleCheckout ss d h s)) = orders s @ [order]
         \<and> o_user_id order = uid
         \<and> order_items (res_store (handleCheckout ss d h s)) = order_items s @ [l1, l2]
         \<and> oi_order_id l1 = o_id order \<and> oi_order_id l2 = o_id order
         \<and> oi_product_id l1 = ci_product_id a \<and> oi_product_id l2 = ci_product_id b
         \<and> oi_quantity l1 = 2 \<and> oi_quantity l2 = 1
         \<and> line_amount l1 + line_amount l2 = o_total_amount order
         \<and> products (res_store (handleCheckout ss d h s))
             = map (\<lambda>p. if p_id p = ci_product_id a then p\<lparr>p_stock_quantity := p_stock_quantity p - 2\<rparr>
                        else if p_id p = ci_product_id b then p\<lparr>p_stock_quantity := p_stock_quantity p - 1\<rparr>
                        else p) (products s)
         \<and> cartItems (res_state (handleCheckout ss d h s)) = []
         \<and> cart_of (res_store (handleCheckout ss d h s)) uid = []"
proof (rule handleCheckout_placed [OF user ok])
  fix order s1 s2 s3 s4
  assume st1: "insert_order (order_of_cart uid d h) s = (Inr order, s1)" and
    st2: "insert_order_items (orderItems order (cartItems h)) s1 = (Inr (), s2)" and
    st3: "update_stock uid (cartItems h) s2 = (Inr (), s3)" and
    st4: "delete_cart uid s3 = (Inr (), s4)" and
    store: "res_store (handleCheckout ss d h s) = s4" and
    state: "res_state (handleCheckout ss d h s) = h\<lparr>cartItems := []\<rparr>"
  note f1 = insert_order_accepted [OF st1]
  note f2 = insert_order_items_accepted [OF st2]
  note f3 = update_stock_accepted [OF st3]
  note f4 = delete_cart_accepted [OF st4]
  define l1 where "l1 = \<lparr>oi_id = gen_random_uuid (next_uuid s1), oi_order_id = o_id order,
      oi_product_id = ci_product_id a, oi_quantity = ci_quantity a, oi_price = p_price (ci_product a)\<rparr>"
  define l2 where "l2 = \<lparr>oi_id = gen_random_uuid (Suc (next_uuid s1)), oi_order_id = o_id order,
      oi_product_id = ci_product_id b, oi_quantity = ci_quantity b, oi_price = p_price (ci_product b)\<rparr>"
  have s1_tabs: "orders s1 = orders s @ [order]" "order_items s1 = order_items s"
      "products s1 = products s" "cart_items s1 = cart_items s" "profiles s1 = profiles s"
    using f1 by (simp_all add: journal_def)
  have s2_tabs: "orders s2 = orders s1" "order_items s2 = order_items s1 @ [l1, l2]"
      "products s2 = products s1" "cart_items s2 = cart_items s1" "profiles s2 = profiles s1"
    using f2 by (simp_all add: journal_def items orderItems_def l1_def l2_def)
  have admin2: "is_admin s2 uid"
    using admin by (simp add: is_admin_def s2_tabs s1_tabs)
  have s3_tabs: "orders s3 = orders s2" "order_items s3 = order_items s2"
      "products s3 = map (decrement b) (map (decrement a) (products s2))"
    using f3 admin2 by (simp_all add: items)
  have s4_tabs: "orders s4 = orders s3" "order_items s4 = order_items s3"
      "products s4 = products s3"
    using f4 by (simp_all add: journal_def)
  have total: "o_total_amount order = p_price (ci_product a) * 2 + p_price (ci_product b) * 1"
    using f1 by (simp add: order_of_cart_def cartTotal_def items qa qb)
  have amount: "line_amount l1 + line_amount l2 = o_total_amount order"
    by (simp add: total line_amount_def l1_def l2_def qa qb)
  have d: "distinct (map p_id (products s))" using pk by (simp add: products_unique_def)
  have fa: "find_product (products s) (ci_product_id a) = Some (ci_product a)"
    by (rule cart_of_member [of a s uid]) (simp add: sync items)
  have fb: "find_product (products s) (ci_product_id b) = Some (ci_product b)"
    by (rule cart_of_member [of b s uid]) (simp add: sync items)
  have prods: "map (decrement b) (map (decrement a) (products s))
      = map (\<lambda>p. if p_id p = ci_product_id a then p\<lparr>p_stock_quantity := p_stock_quantity p - 2\<rparr>
                        else if p_id p = ci_product_id b then p\<lparr>p_stock_quantity := p_stock_quantity p - 1\<rparr>
                        else p) (products s)"
  proof -
    have "(decrement b (decrement a p))
        = (if p_id p = ci_product_id a then p\<lparr>p_stock_quantity := p_stock_quantity p - 2\<rparr>
           else if p_id p = ci_product_id b then p\<lparr>p_stock_quantity := p_stock_quantity p - 1\<rparr>
           else p)" if p: "p \<in> set (products s)" for p
    proof (cases "p_id p = ci_product_id a")
      case True
      have "decrement a p = p\<lparr>p_stock_quantity := p_stock_quantity p - 2\<rparr>"
        using decrement_in_sync [OF d fa p] True qa by simp
      moreover have "decrement b (p\<lparr>p_stock_quantity := p_stock_quantity p - 2\<rparr>)
          = p\<lparr>p_stock_quantity := p_stock_quantity p - 2\<rparr>"
        using True distinct_products by (simp add: decrement_def)
      ultimately show ?thesis using True by simp
    next
      case False
      then have "decrement a p = p" by (simp add: decrement_def)
      then show ?thesis using decrement_in_sync [OF d fb p] False qb by simp
    qed
    then show ?thesis by simp
  qed
  have empty: "cart_of s4 uid = []"
    using f4 by (simp add: journal_def cart_of_def)
  have c1: "orders s4 = orders s @ [order]" by (simp add: s4_tabs s3_tabs s2_tabs s1_tabs)
  have c2: "o_user_id order = uid" using f1 by (simp add: order_of_cart_def)
  have c3: "order_items s4 = order_items s @ [l1, l2]" by (simp add: s4_tabs s3_tabs s2_tabs s1_tabs)
  have c4: "oi_order_id l1 = o_id order" "oi_order_id l2 = o_id order"
    "oi_product_id l1 = ci_product_id a" "oi_product_id l2 = ci_product_id b"
    "oi_quantity l1 = 2" "oi_quantity l2 = 1"
    by (simp_all add: l1_def l2_def qa qb)
  have c5: "products s4 = map (\<lambda>p. if p_id p = ci_product_id a then p\<lparr>p_stock_quantity := p_stock_quantity p - 2\<rparr>
                        else if p_id p = ci_product_id b then p\<lparr>p_stock_quantity := p_stock_quantity p - 1\<rparr>
                        else p) (products s)"
    using prods by (simp add: s4_tabs s3_tabs s2_tabs s1_tabs)
  have c6: "cartItems (res_state (handleCheckout ss d h s)) = []" by (simp add: state)
  show ?thesis
    unfolding store
    by (intro exI [of _ order] exI [of _ l1] exI [of _ l2] conjI)
      (fact c1 c2 c3 c4 c5 c6 amount empty)+
qed

text \<open>With a cart loaded before the stock changed, the stock is written from the value
  the cart holds: a stock of 70 becomes 73 when 2 are bought by an administrator whose
  cart entry still holds a stock of 75.\<close>

lemma checkout_stale_cart_overwrites_stock:
  "map p_stock_quantity (products ((shop [row ''c1'' shoes 2] [])
        \<lparr>products := [shoes\<lparr>p_stock_quantity := 70\<rparr>, tshirt, mug]\<rparr>)) = [70, 100, 1]
   \<and> map p_stock_quantity (products (res_store (handleCheckout alice form (cart [entry ''c1'' shoes 2])
        ((shop [row ''c1'' shoes 2] [])\<lparr>products := [shoes\<lparr>p_stock_quantity := 70\<rparr>, tshirt, mug]\<rparr>))))
       = [73, 100, 1]"
  by (simp add: store_defs hook_defs shop_defs Let_def)

text \<open>
  C1 does not hold of the code. An ordinary buyer, who is no administrator, checks out a
  cart of two entries for two different products with quantities 2 and 1; the local cart
  is what the store holds for the buyer, and every store call of the run succeeds. The
  run adds one order and two order lines whose amounts sum to the order's total, and
  leaves the cart empty, but the stock of the two products is what it was: the policy of
  the schema on \<^verbatim>\<open>products\<close> lets administrators only update a row, the two updates of
  \<^verbatim>\<open>handleCheckout\<close> match no row, and no error is reported for them.
\<close>

theorem checkout_ordinary_buyer_leaves_stock:
  "is_admin (shop [bob_row ''c1'' shoes 2, bob_row ''c2'' tshirt 1] []) ''u2'' = False
   \<and> cart_of (shop [bob_row ''c1'' shoes 2, bob_row ''c2'' tshirt 1] []) ''u2''
       = cartItems (cart [bob_entry ''c1'' shoes 2, bob_entry ''c2'' tshirt 1])
   \<and> new_calls (shop [bob_row ''c1'' shoes 2, bob_row ''c2'' tshirt 1] [])
        (res_store (handleCheckout bob form (cart [bob_entry ''c1'' shoes 2, bob_entry ''c2'' tshirt 1])
           (shop [bob_row ''c1'' shoes 2, bob_row ''c2'' tshirt 1] [])))
       = [(Orders, Insert, None), (OrderItems, Insert, None), (Products, Update, None),
          (Products, Update, None), (CartItems, Delete, None)]
   \<and> map o_total_amount (orders (res_store (handleCheckout bob form
          (cart [bob_entry ''c1'' shoes 2, bob_entry ''c2'' tshirt 1])
          (shop [bob_row ''c1'' shoes 2, bob_row ''c2'' tshirt 1] [])))) = [20997 / 100]
   \<and> map line_amount (order_items (res_store (handleCheckout bob form
          (cart [bob_entry ''c1'' shoes 2, bob_entry ''c2'' tshirt 1])
          (shop [bob_row ''c1'' shoes 2, bob_row ''c2'' tshirt 1] [])))) = [17998 / 100, 2999 / 100]
   \<and> map p_stock_quantity (products (shop [bob_row ''c1'' shoes 2, bob_row ''c2'' tshirt 1] []))
       = [75, 100, 1]
   \<and> map p_stock_quantity (products (res_store (handleCheckout bob form
          (cart [bob_entry ''c1'' shoes 2, bob_entry ''c2'' tshirt 1])
          (shop [bob_row ''c1'' shoes 2, bob_row ''c2'' tshirt 1] [])))) = [75, 100, 1]
   \<and> cartItems (res_state (handleCheckout bob form
          (cart [bob_entry ''c1'' shoes 2, bob_entry ''c2'' tshirt 1])
          (shop [bob_row ''c1'' shoes 2, bob_row ''c2'' tshirt 1] []))) = []
   \<and> res_toasts (handleCheckout bob form
          (cart [bob_entry ''c1'' shoes 2, bob_entry ''c2'' tshirt 1])
          (shop [bob_row ''c1'' shoes 2, bob_row ''c2'' tshirt 1] []))
       = [ToastSuccess ''Order placed successfully!'']"
  by (simp add: store_defs hook_defs journal_defs shop_defs line_amount_def Let_def)

text \<open>
  C5, as the specification words it, fails on a cart loaded before the catalog price
  changed: the line is written with the price the cart entry holds, 89.99, while the
  catalog price of the product at the moment the order is placed is 100.
\<close>

theorem checkout_line_price_stale_counterexample:
  "catalog_price ((shop [bob_row ''c1'' shoes 2] [])\<lparr>products := [shoes\<lparr>p_price := 100\<rparr>, tshirt, mug]\<rparr>)
      ''p1'' = Some 100
   \<and> map oi_price (new_lines
        ((shop [bob_row ''c1'' shoes 2] [])\<lparr>products := [shoes\<lparr>p_price := 100\<rparr>, tshirt, mug]\<rparr>)
        (res_store (handleCheckout bob form (cart [bob_entry ''c1'' shoes 2])
           ((shop [bob_row ''c1'' shoes 2] [])\<lparr>products := [shoes\<lparr>p_price := 100\<rparr>, tshirt, mug]\<rparr>))))
       = [8999 / 100]"
  by (simp add: store_defs hook_defs shop_defs new_lines_def catalog_price_def Let_def)

text \<open>
  C5, amended. Whatever the outcome of the run, the order lines a checkout inserts carry,
  entry by entry, the product and the price of the product that the cart entry holds when
  the order is placed, which is the price read when the entry was loaded or added; when
  the local cart is what the store holds, that price is the catalog price of the product
  at that moment. An update of the products table afterwards, by whoever and whatever it
  changes, leaves the order lines as they are.
\<close>

theorem checkout_lines_carry_purchase_price:
  "(new_lines s (res_store (handleCheckout ss d h s)) \<noteq> []
      \<longrightarrow> map oi_price (new_lines s (res_store (handleCheckout ss d h s)))
            = map (\<lambda>item. p_price (ci_product item)) (cartItems h)
          \<and> map oi_product_id (new_lines s (res_store (handleCheckout ss d h s)))
            = map ci_product_id (cartItems h))
   \<and> (cart_of s uid = cartItems h
      \<longrightarrow> list_all (\<lambda>l. catalog_price s (oi_product_id l) = Some (oi_price l))
            (new_lines s (res_store (handleCheckout ss d h s))))
   \<and> order_items (snd (update_products actor patch pid (res_store (handleCheckout ss d h s))))
       = order_items (res_store (handleCheckout ss d h s))"
proof (intro conjI impI)
  assume "new_lines s (res_store (handleCheckout ss d h s)) \<noteq> []"
  then obtain n order where
    "new_lines s (res_store (handleCheckout ss d h s)) = number_rows n (orderItems order (cartItems h))"
    using handleCheckout_new_lines [of s ss d h] by auto
  then show "map oi_price (new_lines s (res_store (handleCheckout ss d h s)))
            = map (\<lambda>item. p_price (ci_product item)) (cartItems h)"
    and "map oi_product_id (new_lines s (res_store (handleCheckout ss d h s)))
            = map ci_product_id (cartItems h)"
    by (simp_all add: number_rows_prices orderItems_prices)
next
  assume sync: "cart_of s uid = cartItems h"
  have member: "find_product (products s) (ci_product_id item) = Some (ci_product item)"
    if "item \<in> set (cartItems h)" for item
    using that cart_of_member [of item s uid] by (simp add: sync)
  from handleCheckout_new_lines [of s ss d h]
  show "list_all (\<lambda>l. catalog_price s (oi_product_id l) = Some (oi_price l))
            (new_lines s (res_store (handleCheckout ss d h s)))"
  proof
    assume "new_lines s (res_store (handleCheckout ss d h s)) = []"
    then show ?thesis by simp
  next
    assume "\<exists>n order. new_lines s (res_store (handleCheckout ss d h s))
                  = number_rows n (orderItems order (cartItems h))"
    then obtain n order where
      e: "new_lines s (res_store (handleCheckout ss d h s)) = number_rows n (orderItems order (cartItems h))"
      by auto
    show ?thesis unfolding e by (rule lines_at_catalog_price) (rule member)
  qed
next
  show "order_items (snd (update_products actor patch pid (res_store (handleCheckout ss d h s))))
       = order_items (res_store (handleCheckout ss d h s))"
    by (rule update_products_order_items)
qed

theorem checkout_lines_witness:
  "new_lines (shop [row ''c1'' shoes 2] [])
      (res_store (handleCheckout alice form (cart [entry ''c1'' shoes 2]) (shop [row ''c1'' shoes 2] []))) \<noteq> []
   \<and> cart_of (shop [row ''c1'' shoes 2] []) ''u1'' = cartItems (cart [entry ''c1'' shoes 2])
   \<and> map oi_price (new_lines (shop [row ''c1'' shoes 2] [])
        (res_store (handleCheckout alice form (cart [entry ''c1'' shoes 2]) (shop [row ''c1'' shoes 2] []))))
       = [8999 / 100]
   \<and> catalog_price (shop [row ''c1'' shoes 2] []) ''p1'' = Some (8999 / 100)
   \<and> catalog_price (snd (update_products ''u1'' (\<lambda>p. p\<lparr>p_price := 100\<rparr>) ''p1''
        (res_store (handleCheckout alice form (cart [entry ''c1'' shoes 2]) (shop [row ''c1'' shoes 2] [])))))
        ''p1'' = Some 100
   \<and> map oi_price (order_items (snd (update_products ''u1'' (\<lambda>p. p\<lparr>p_price := 100\<rparr>) ''p1''
        (res_store (handleCheckout alice form (cart [entry ''c1'' shoes 2]) (shop [row ''c1'' shoes 2] []))))))
       = [8999 / 100]"
proof -
  let ?h = "cart [entry ''c1'' shoes 2]"
  let ?s = "shop [row ''c1'' shoes 2] []"
  let ?r = "handleCheckout alice form ?h ?s"
  let ?patch = "\<lambda>p. p\<lparr>p_price := 100\<rparr>"
  have lines: "order_items (res_store ?r)
      = [\<lparr>oi_id = ''uuid-i'', oi_order_id = ''uuid-'', oi_product_id = ''p1'', oi_quantity = 2,
          oi_price = 8999 / 100\<rparr>]"
    by (simp add: store_defs hook_defs shop_defs Let_def)
  have h1: "new_lines ?s (res_store ?r) \<noteq> []"
    by (simp add: new_lines_def lines) (simp add: shop_def)
  have h2: "cart_of ?s ''u1'' = cartItems ?h"
    by (simp add: cart_of_def join_product_def find_product_def shop_defs)
  note t = checkout_lines_carry_purchase_price [of ?s alice form ?h "''u1''" "''u1''" ?patch "''p1''"]
  from t h1 have p: "map oi_price (new_lines ?s (res_store ?r)) = map (\<lambda>item. p_price (ci_product item)) (cartItems ?h)"
    by blast
  from t have keep: "order_items (snd (update_products ''u1'' ?patch ''p1'' (res_store ?r))) = order_items (res_store ?r)"
    by blast
  have p': "map oi_price (new_lines ?s (res_store ?r)) = [8999 / 100]"
    unfolding p by (simp add: shop_defs)
  have c0: "catalog_price ?s ''p1'' = Some (8999 / 100)"
    by (simp add: catalog_price_def find_product_def shop_defs)
  have c1: "catalog_price (snd (update_products ''u1'' ?patch ''p1'' (res_store ?r))) ''p1'' = Some 100"
    by (simp add: catalog_price_def store_defs hook_defs shop_defs Let_def)
  have k: "map oi_price (order_items (snd (update_products ''u1'' ?patch ''p1'' (res_store ?r)))) = [8999 / 100]"
    unfolding keep by (simp add: lines)
  from h1 h2 p' c0 c1 k show ?thesis by simp
qed

text \<open>
  C6. When the insert of the order, the first store call of a checkout, is rejected: the
  four tables are as before (so are the cart rows), the local cart is as before, the
  user is told \<open>Failed to place order\<close>, the modal stays open, nothing is thrown, and the
  rejected insert is the only call the run has issued.
\<close>

theorem checkout_order_insert_failure:
  assumes user: "guard_user ss = Some uid"
    and failed: "fst (insert_order (order_of_cart uid d h) s) = Inl e"
  shows "same_tables s (res_store (handleCheckout ss d h s))
       \<and> res_state (handleCheckout ss d h s) = h
       \<and> res_toasts (handleCheckout ss d h s) = [ToastError ''Failed to place order'']
       \<and> res_closed (handleCheckout ss d h s) = False
       \<and> res_thrown (handleCheckout ss d h s) = None
       \<and> new_calls s (res_store (handleCheckout ss d h s)) = [(Orders, Insert, Some e)]"
proof -
  obtain s1 where io: "insert_order (order_of_cart uid d h) s = (Inl e, s1)"
    using failed by (cases "insert_order (order_of_cart uid d h) s") simp
  have s1: "s1 = journal Orders Insert (Some e) s"
    using io by (auto simp: insert_order_def reject_def accept_def Let_def split: option.splits if_splits)
  have r: "handleCheckout ss d h s = checkout_failed e h s1"
    using user io by (simp add: handleCheckout_def)
  show ?thesis
    by (simp add: r s1 checkout_failed_def journal_def same_tables_def new_calls_def)
qed

theorem checkout_order_insert_failure_witness:
  "guard_user alice = Some ''u1''
   \<and> fst (insert_order (order_of_cart ''u1'' form (cart [entry ''c1'' shoes 2]))
          (shop [row ''c1'' shoes 2] [Some NetworkError])) = Inl NetworkError
   \<and> same_tables (shop [row ''c1'' shoes 2] [Some NetworkError])
        (res_store (handleCheckout alice form (cart [entry ''c1'' shoes 2]) (shop [row ''c1'' shoes 2] [Some NetworkError])))
   \<and> res_state (handleCheckout alice form (cart [entry ''c1'' shoes 2]) (shop [row ''c1'' shoes 2] [Some NetworkError]))
       = cart [entry ''c1'' shoes 2]
   \<and> res_toasts (handleCheckout alice form (cart [entry ''c1'' shoes 2]) (shop [row ''c1'' shoes 2] [Some NetworkError]))
       = [ToastError ''Failed to place order'']"
proof -
  have user: "guard_user alice = Some ''u1''"
    by (simp add: guard_user_def alice_def)
  have failed: "fst (insert_order (order_of_cart ''u1'' form (cart [entry ''c1'' shoes 2]))
          (shop [row ''c1'' shoes 2] [Some NetworkError])) = Inl NetworkError"
    by (simp add: insert_order_def scheduled_fault_def reject_def shop_def)
  from checkout_order_insert_failure [OF user failed] user failed
  show ?thesis by simp
qed

text \<open>
  C3 does not hold of the code: \<^verbatim>\<open>handleCheckout\<close> has no test of the cart. With an empty
  cart and a store that lets the calls through, the run inserts an order of total 0,
  inserts no line, deletes the (empty) cart and reports success.
\<close>

theorem checkout_empty_cart_creates_order:
  "orders (res_store (handleCheckout alice form (cart []) (shop [] [])))
     = [\<lparr>o_id = ''uuid-'', o_user_id = ''u1'', o_status = Confirmed, o_total_amount = 0,
         o_shipping_address = \<lparr>sa_fullName = ''Alice'', sa_address = ''1 Main St'', sa_city = ''Springfield'',
                                sa_postalCode = ''12345'', sa_country = ''US''\<rparr>,
         o_payment_status = Paid\<rparr>]
   \<and> order_items (res_store (handleCheckout alice form (cart []) (shop [] []))) = []
   \<and> new_calls (shop [] []) (res_store (handleCheckout alice form (cart []) (shop [] [])))
     = [(Orders, Insert, None), (OrderItems, Insert, None), (CartItems, Delete, None)]
   \<and> res_toasts (handleCheckout alice form (cart []) (shop [] [])) = [ToastSuccess ''Order placed successfully!'']
   \<and> res_closed (handleCheckout alice form (cart []) (shop [] []))"
  by (simp add: store_defs hook_defs journal_defs shop_defs Let_def)

text \<open>
  C2 does not hold of the code: nothing compares the stock with the quantity before the
  order is written. For a cart entry of quantity 3 of a product with stock 1, bought by
  an administrator, the run inserts the order (confirmed, paid) and its line; only then
  the stock update to \<open>-2\<close> is refused by the check constraint of the schema, the stock
  stays 1 and the order and its line stay in the store. (For an ordinary buyer the update
  matches no row, and the order and its line are written as well.)
\<close>

theorem checkout_beyond_stock_records_order:
  "p_stock_quantity mug = 1
   \<and> orders (res_store (handleCheckout alice form (cart [entry ''c3'' mug 3]) (shop [row ''c3'' mug 3] [])))
     = [\<lparr>o_id = ''uuid-'', o_user_id = ''u1'', o_status = Confirmed, o_total_amount = 15,
         o_shipping_address = \<lparr>sa_fullName = ''Alice'', sa_address = ''1 Main St'', sa_city = ''Springfield'',
                                sa_postalCode = ''12345'', sa_country = ''US''\<rparr>,
         o_payment_status = Paid\<rparr>]
   \<and> order_items (res_store (handleCheckout alice form (cart [entry ''c3'' mug 3]) (shop [row ''c3'' mug 3] [])))
     = [\<lparr>oi_id = ''uuid-i'', oi_order_id = ''uuid-'', oi_product_id = ''p3'', oi_quantity = 3, oi_price = 5\<rparr>]
   \<and> products (res_store (handleCheckout alice form (cart [entry ''c3'' mug 3]) (shop [row ''c3'' mug 3] [])))
     = [shoes, tshirt, mug]
   \<and> new_calls (shop [row ''c3'' mug 3] [])
        (res_store (handleCheckout alice form (cart [entry ''c3'' mug 3]) (shop [row ''c3'' mug 3] [])))
     = [(Orders, Insert, None), (OrderItems, Insert, None), (Products, Update, Some ConstraintViolation)]
   \<and> res_toasts (handleCheckout alice form (cart [entry ''c3'' mug 3]) (shop [row ''c3'' mug 3] []))
     = [ToastError ''Failed to place order'']"
  by (simp add: store_defs hook_defs journal_defs shop_defs Let_def)

end
